theory Spec2Isabelle
  imports Main "HOL-Library.Word"
begin

section \<open>Python values and exceptions\<close>

text \<open>
  The notebooks handle loosely typed data: the responses of the cloud services, parsed
  JSON bodies, and the dictionaries the helper functions build. A value is one of
  Python's JSON-shaped values. A float is kept as its IEEE-754 binary64 bit pattern: the
  code never computes with a float, it only passes it on or tests its truth value.
  A dictionary has string keys (JSON objects, boto3 responses) and is an association
  list read with \<open>map_of\<close>. A string is a list of characters.
\<close>

datatype pyval =
    PNone
  | PBool bool
  | PInt int
  | PFloat "64 word"
  | PStr string
  | PList "pyval list"
  | PDict "(string \<times> pyval) list"

text \<open>
  Exceptions, all of them instances of Python's \<open>Exception\<close> (what
  \<open>except Exception\<close> catches). \<open>KeyError\<close>, \<open>IndexError\<close>,
  \<open>TypeError\<close> and \<open>AttributeError\<close> are raised by the interpreter;
  \<open>RuntimeError\<close> is the one the notebooks raise themselves, with its message;
  \<open>BackendError\<close> is any error raised by a service client (a botocore client
  error, a connection error, a timeout, a body that does not parse), with its text.
\<close>

datatype exn =
    KeyError pyval
  | IndexError
  | TypeError
  | AttributeError
  | RuntimeError string
  | BackendError string

text \<open>
  The interpreter's own renderings, which are not code of the notebooks: \<open>str(e)\<close>
  of an exception the interpreter raised, and \<open>str(v)\<close> of a value that is not a
  string.
\<close>

record interp =
  builtin_exn_text :: "exn \<Rightarrow> string"
  builtin_val_text :: "pyval \<Rightarrow> string"

fun str_exn :: "interp \<Rightarrow> exn \<Rightarrow> string" where
  "str_exn I (RuntimeError m) = m"
| "str_exn I (BackendError m) = m"
| "str_exn I e = builtin_exn_text I e"

fun str_val :: "interp \<Rightarrow> pyval \<Rightarrow> string" where
  "str_val I (PStr s) = s"
| "str_val I v = builtin_val_text I v"

text \<open>
  A rendering for the concrete examples further down: none of them depends on the
  wording.
\<close>

definition example_interp :: interp where
  "example_interp =
     \<lparr> builtin_exn_text = (\<lambda>e. ''builtin error''), builtin_val_text = (\<lambda>v. ''value'') \<rparr>"

subsection \<open>Subscripting: \<open>container[key]\<close>\<close>

text \<open>
  A list or a string is indexed by an \<open>int\<close> (a \<open>bool\<close> is an
  \<open>int\<close> in Python); a negative index counts from the end; an index out of
  range raises \<open>IndexError\<close>.
\<close>

fun as_index :: "pyval \<Rightarrow> int option" where
  "as_index (PInt i) = Some i"
| "as_index (PBool b) = Some (if b then 1 else 0)"
| "as_index _ = None"

definition py_index :: "'a list \<Rightarrow> int \<Rightarrow> exn + 'a" where
  "py_index xs i =
     (if 0 \<le> i \<and> i < int (length xs) then Inr (xs ! nat i)
      else if i < 0 \<and> - int (length xs) \<le> i then Inr (xs ! nat (i + int (length xs)))
      else Inl IndexError)"

text \<open>
  \<open>d[key]\<close> on a dictionary raises \<open>KeyError\<close> for a missing key and
  \<open>TypeError\<close> for an unhashable one (a list or a dictionary); on a value that
  is neither a dictionary, a list nor a string every subscript raises \<open>TypeError\<close>.
\<close>

fun py_getitem :: "pyval \<Rightarrow> pyval \<Rightarrow> exn + pyval" where
  "py_getitem (PDict d) (PStr k) =
     (case map_of d k of Some v \<Rightarrow> Inr v | None \<Rightarrow> Inl (KeyError (PStr k)))"
| "py_getitem (PDict d) (PList ks) = Inl TypeError"
| "py_getitem (PDict d) (PDict ks) = Inl TypeError"
| "py_getitem (PDict d) key = Inl (KeyError key)"
| "py_getitem (PList xs) key =
     (case as_index key of Some i \<Rightarrow> py_index xs i | None \<Rightarrow> Inl TypeError)"
| "py_getitem (PStr s) key =
     (case as_index key of
        Some i \<Rightarrow> (case py_index s i of Inl e \<Rightarrow> Inl e | Inr c \<Rightarrow> Inr (PStr [c]))
      | None \<Rightarrow> Inl TypeError)"
| "py_getitem v key = Inl TypeError"

section \<open>Key-path resolver\<close>

text \<open>
  \<^verbatim>\<open>
  def get_value_by_key_path(d, path):
      current = d
      for key in path:
          try:
              current = current[key]
          except (KeyError, IndexError, TypeError):
              return None
      return current
  \<close>
  The handler names three classes; any other exception would leave the function.
\<close>

fun key_path_handles :: "exn \<Rightarrow> bool" where
  "key_path_handles (KeyError k) = True"
| "key_path_handles IndexError = True"
| "key_path_handles TypeError = True"
| "key_path_handles e = False"

fun get_value_by_key_path :: "pyval \<Rightarrow> pyval list \<Rightarrow> exn + pyval" where
  "get_value_by_key_path current [] = Inr current"
| "get_value_by_key_path current (key # path) =
     (case py_getitem current key of
        Inr v \<Rightarrow> get_value_by_key_path v path
      | Inl e \<Rightarrow> if key_path_handles e then Inr PNone else Inl e)"

text \<open>
  The contract in the specification's words: the value reached by successively indexing
  into the structure, with no handler; the first failing step is the outcome.
\<close>

fun successive_index :: "pyval \<Rightarrow> pyval list \<Rightarrow> exn + pyval" where
  "successive_index v [] = Inr v"
| "successive_index v (k # ks) =
     (case py_getitem v k of Inl e \<Rightarrow> Inl e | Inr w \<Rightarrow> successive_index w ks)"


section \<open>Interpreter operations the notebooks use\<close>

text \<open>Sequencing of steps that may raise: the first exception ends the block.\<close>

definition try_bind :: "exn + 'a \<Rightarrow> ('a \<Rightarrow> exn + 'b) \<Rightarrow> exn + 'b" where
  "try_bind m f = (case m of Inl e \<Rightarrow> Inl e | Inr x \<Rightarrow> f x)"

fun try_map :: "('a \<Rightarrow> exn + 'b) \<Rightarrow> 'a list \<Rightarrow> exn + 'b list" where
  "try_map f [] = Inr []"
| "try_map f (x # xs) =
     (case f x of
        Inl e \<Rightarrow> Inl e
      | Inr y \<Rightarrow> (case try_map f xs of Inl e \<Rightarrow> Inl e | Inr ys \<Rightarrow> Inr (y # ys)))"

text \<open>Truth value of a value in a condition (\<open>if v:\<close>, \<open>a and v\<close>).\<close>

fun py_truthy :: "pyval \<Rightarrow> bool" where
  "py_truthy PNone = False"
| "py_truthy (PBool b) = b"
| "py_truthy (PInt i) = (i \<noteq> 0)"
| "py_truthy (PFloat w) = (w \<noteq> 0 \<and> w \<noteq> 0x8000000000000000)"
| "py_truthy (PStr s) = (s \<noteq> [])"
| "py_truthy (PList xs) = (xs \<noteq> [])"
| "py_truthy (PDict d) = (d \<noteq> [])"

text \<open>The keys of a dictionary, each once, in insertion order.\<close>

fun dict_keys :: "(string \<times> pyval) list \<Rightarrow> string list" where
  "dict_keys [] = []"
| "dict_keys ((k, v) # d) = k # filter (\<lambda>x. x \<noteq> k) (dict_keys d)"

text \<open>
  \<open>for x in v\<close>: a list yields its elements, a string its characters, a
  dictionary its keys; anything else is not iterable.
\<close>

fun py_iter :: "pyval \<Rightarrow> exn + pyval list" where
  "py_iter (PList xs) = Inr xs"
| "py_iter (PStr s) = Inr (map (\<lambda>c. PStr [c]) s)"
| "py_iter (PDict d) = Inr (map PStr (dict_keys d))"
| "py_iter v = Inl TypeError"

text \<open>
  \<open>k in v\<close> for a string \<open>k\<close>: key membership in a dictionary, element
  membership in a list, substring test in a string; \<open>TypeError\<close> otherwise.
\<close>

fun is_substring :: "string \<Rightarrow> string \<Rightarrow> bool" where
  "is_substring k [] = (k = [])"
| "is_substring k (c # s) = (take (length k) (c # s) = k \<or> is_substring k s)"

fun py_contains :: "string \<Rightarrow> pyval \<Rightarrow> exn + bool" where
  "py_contains k (PDict d) = Inr (map_of d k \<noteq> None)"
| "py_contains k (PList xs) = Inr (PStr k \<in> set xs)"
| "py_contains k (PStr s) = Inr (is_substring k s)"
| "py_contains k v = Inl TypeError"

text \<open>\<open>v.get(k, default)\<close>: only a dictionary has the method.\<close>

fun py_get :: "pyval \<Rightarrow> string \<Rightarrow> pyval \<Rightarrow> exn + pyval" where
  "py_get (PDict d) k dflt = Inr (case map_of d k of Some v \<Rightarrow> v | None \<Rightarrow> dflt)"
| "py_get v k dflt = Inl AttributeError"

text \<open>\<open>"".join(items)\<close>: every item must be a string.\<close>

fun py_join_empty :: "pyval list \<Rightarrow> exn + string" where
  "py_join_empty [] = Inr []"
| "py_join_empty (PStr s # vs) =
     (case py_join_empty vs of Inl e \<Rightarrow> Inl e | Inr r \<Rightarrow> Inr (s @ r))"
| "py_join_empty (v # vs) = Inl TypeError"

text \<open>\<open>sep.join(strings)\<close> on a list of strings.\<close>

fun str_join :: "string \<Rightarrow> string list \<Rightarrow> string" where
  "str_join sep [] = []"
| "str_join sep [x] = x"
| "str_join sep (x # y # xs) = x @ sep @ str_join sep (y # xs)"

text \<open>\<open>v == 200\<close>: an int 200 or the float 200.0 (bit pattern below).\<close>

fun py_eq_200 :: "pyval \<Rightarrow> bool" where
  "py_eq_200 (PInt i) = (i = 200)"
| "py_eq_200 (PFloat w) = (w = 0x4069000000000000)"
| "py_eq_200 v = False"

section \<open>Generator, conversational path: \<open>invoke_converse\<close>\<close>

text \<open>The keyword arguments of \<open>client.converse\<close>.\<close>

record converse_request =
  cv_modelId :: string
  cv_messages :: pyval
  cv_system :: pyval
  cv_inferenceConfig :: pyval

text \<open>
  \<^verbatim>\<open>
  system_prompt = [{'text': system_prompt}]
  messages = []
  message = {"role": "user", "content": [{"text": f"{user_prompt}"}]}
  messages.append(message)
  inferenceConfig = {"maxTokens" : 4096, "temperature": temperature}
  response = client.converse(modelId=model_id, messages=messages,
                             system=system_prompt, inferenceConfig = inferenceConfig)
  \<close>
  The parameter \<open>max_tokens\<close> is not read anywhere in the body.
\<close>

definition converse_args ::
  "string \<Rightarrow> string \<Rightarrow> string \<Rightarrow> pyval \<Rightarrow> int \<Rightarrow> converse_request" where
  "converse_args system_prompt user_prompt model_id temperature max_tokens =
     \<lparr> cv_modelId = model_id,
       cv_messages =
         PList [PDict [(''role'', PStr ''user''),
                       (''content'', PList [PDict [(''text'', PStr user_prompt)]])]],
       cv_system = PList [PDict [(''text'', PStr system_prompt)]],
       cv_inferenceConfig =
         PDict [(''maxTokens'', PInt 4096), (''temperature'', temperature)] \<rparr>"

text \<open>
  \<^verbatim>\<open>
  for content in content_list :
      text = content.get('text')
      if text:
          answer += text
  \<close>
\<close>

fun converse_concat :: "string \<Rightarrow> pyval list \<Rightarrow> exn + string" where
  "converse_concat answer [] = Inr answer"
| "converse_concat answer (content # rest) =
     (case py_get content ''text'' PNone of
        Inl e \<Rightarrow> Inl e
      | Inr t \<Rightarrow>
          if py_truthy t
          then (case t of PStr s \<Rightarrow> converse_concat (answer @ s) rest | _ \<Rightarrow> Inl TypeError)
          else converse_concat answer rest)"

text \<open>
  The part of the \<open>try\<close> block after the call: on status 200 the text fragments of
  the content list, otherwise an in-band error string.
\<close>

definition converse_answer :: "interp \<Rightarrow> pyval \<Rightarrow> exn + string" where
  "converse_answer I response =
     try_bind (py_getitem response (PStr ''ResponseMetadata'')) (\<lambda>meta.
     try_bind (py_getitem meta (PStr ''HTTPStatusCode'')) (\<lambda>status.
       if py_eq_200 status
       then
         try_bind (get_value_by_key_path response
                     [PStr ''output'', PStr ''message'', PStr ''content'']) (\<lambda>content_list.
         try_bind (py_iter content_list) (\<lambda>contents. converse_concat [] contents))
       else
         try_bind (py_getitem response (PStr ''Error'')) (\<lambda>err.
         try_bind (py_getitem err (PStr ''Message'')) (\<lambda>message.
           Inr (''Error: '' @ str_val I status @ '' - '' @ str_val I message)))))"

text \<open>
  \<open>invoke_converse\<close> returns a pair and prints on failure; the result is the pair
  together with the lines printed. \<open>boto3_client\<close> is the outcome of
  \<open>boto3.client('bedrock-runtime', ...)\<close>, the first statement of the
  \<open>try\<close> block: the client's \<open>converse\<close> method, or the exception
  the construction raised.
  \<^verbatim>\<open>
  try:
      client = boto3.client('bedrock-runtime', region_name=regionName)
      ...
      return answer, response
  except Exception as e:
      print(f"Error in invoke_converse: {str(e)}")
      return None, None
  \<close>
\<close>

definition invoke_converse ::
  "interp \<Rightarrow> exn + (converse_request \<Rightarrow> exn + pyval) \<Rightarrow> string \<Rightarrow> string \<Rightarrow> string
     \<Rightarrow> pyval \<Rightarrow> int \<Rightarrow> exn + ((pyval \<times> pyval) \<times> string list)" where
  "invoke_converse I boto3_client system_prompt user_prompt model_id temperature max_tokens =
     (case try_bind boto3_client (\<lambda>client.
           try_bind (client (converse_args system_prompt user_prompt model_id temperature max_tokens))
             (\<lambda>response. try_bind (converse_answer I response)
                (\<lambda>answer. Inr (PStr answer, response)))) of
        Inr r \<Rightarrow> Inr (r, [])
      | Inl e \<Rightarrow> Inr ((PNone, PNone), [''Error in invoke_converse: '' @ str_exn I e]))"

section \<open>Context retriever\<close>

text \<open>The keyword arguments of \<open>client.retrieve\<close>.\<close>

record retrieve_request =
  rt_knowledgeBaseId :: string
  rt_retrievalQuery :: pyval
  rt_retrievalConfiguration :: pyval

subsection \<open>\<open>search_kb\<close> (reranking notebook)\<close>

text \<open>
  \<^verbatim>\<open>
  text = ""
  if "content" in result and "text" in result["content"]:
      text = "".join([item.get("span", "") if isinstance(item, dict) else str(item)
                     for item in result["content"]["text"]])
  \<close>
\<close>

fun span_item :: "interp \<Rightarrow> pyval \<Rightarrow> pyval" where
  "span_item I (PDict d) = (case map_of d ''span'' of Some v \<Rightarrow> v | None \<Rightarrow> PStr [])"
| "span_item I item = PStr (str_val I item)"

definition search_kb_text :: "interp \<Rightarrow> pyval \<Rightarrow> exn + string" where
  "search_kb_text I result =
     try_bind (py_contains ''content'' result) (\<lambda>has_content.
       if \<not> has_content then Inr []
       else
         try_bind (py_getitem result (PStr ''content'')) (\<lambda>content.
         try_bind (py_contains ''text'' content) (\<lambda>has_text.
           if \<not> has_text then Inr []
           else
             try_bind (py_getitem result (PStr ''content'')) (\<lambda>content'.
             try_bind (py_getitem content' (PStr ''text'')) (\<lambda>spans.
             try_bind (py_iter spans) (\<lambda>items.
               py_join_empty (map (span_item I) items)))))))"

text \<open>
  The entries of \<open>original_results\<close>, which the function builds and does not
  return.
\<close>

record original_result =
  or_position :: int
  or_score :: pyval
  or_text :: string

text \<open>
  \<^verbatim>\<open>
  for i, result in enumerate(kb_response.get("retrievalResults", [])):
      ...
      original_results.append({"position": i + 1,
                               "score": result.get("scoreValue", 0), "text": text})
      documents.append(text)
  return documents
  \<close>
  The loop state is the counter of \<open>enumerate\<close> and the two lists.
\<close>

fun search_kb_loop ::
  "interp \<Rightarrow> int \<Rightarrow> string list \<Rightarrow> original_result list \<Rightarrow> pyval list \<Rightarrow> exn + string list" where
  "search_kb_loop I i documents original_results [] = Inr documents"
| "search_kb_loop I i documents original_results (result # rest) =
     try_bind (search_kb_text I result) (\<lambda>t.
     try_bind (py_get result ''scoreValue'' (PInt 0)) (\<lambda>score.
       search_kb_loop I (i + 1) (documents @ [t])
         (original_results @ [\<lparr> or_position = i + 1, or_score = score, or_text = t \<rparr>])
         rest))"

definition search_kb_args :: "string \<Rightarrow> string \<Rightarrow> int \<Rightarrow> retrieve_request" where
  "search_kb_args query kb_id numberOfResults =
     \<lparr> rt_knowledgeBaseId = kb_id,
       rt_retrievalQuery = PDict [(''text'', PStr query)],
       rt_retrievalConfiguration =
         PDict [(''vectorSearchConfiguration'',
                 PDict [(''numberOfResults'', PInt numberOfResults)])] \<rparr>"

text \<open>
  \<open>boto3_client\<close> is the outcome of \<open>boto3.client("bedrock-agent-runtime", ...)\<close>:
  the client's \<open>retrieve\<close> method, or the exception the construction raised.
  Neither the construction nor the call stands in a \<open>try\<close> block: what they
  raise leaves the function.
\<close>

definition search_kb ::
  "interp \<Rightarrow> exn + (retrieve_request \<Rightarrow> exn + pyval) \<Rightarrow> string \<Rightarrow> string \<Rightarrow> int
     \<Rightarrow> exn + string list" where
  "search_kb I boto3_client query kb_id numberOfResults =
     try_bind boto3_client (\<lambda>client.
     try_bind (client (search_kb_args query kb_id numberOfResults)) (\<lambda>kb_response.
     try_bind (py_get kb_response ''retrievalResults'' (PList [])) (\<lambda>results.
     try_bind (py_iter results) (\<lambda>rs.
       search_kb_loop I 0 [] [] rs))))"

text \<open>
  The normalization in the specification's words. The textual content of a result is
  what stands under \<open>content.text\<close>. A sub-span is a raw string or a span object,
  whose text stands under \<open>span\<close> (a span object with no \<open>span\<close> counts as
  empty). A well-formed result is a mapping whose \<open>content\<close>, when present, is a
  mapping whose \<open>text\<close>, when present, is a string or a list of sub-spans. The
  normalized text is the in-order concatenation of the sub-spans, the string itself, or
  the empty string when there is no textual content.
\<close>

fun span_string :: "pyval \<Rightarrow> string" where
  "span_string (PStr s) = s"
| "span_string (PDict d) = (case map_of d ''span'' of Some (PStr s) \<Rightarrow> s | _ \<Rightarrow> [])"
| "span_string v = []"

fun well_formed_span :: "pyval \<Rightarrow> bool" where
  "well_formed_span (PStr s) = True"
| "well_formed_span (PDict d) =
     (case map_of d ''span'' of None \<Rightarrow> True | Some (PStr s) \<Rightarrow> True | Some v \<Rightarrow> False)"
| "well_formed_span v = False"

fun result_content_text :: "pyval \<Rightarrow> pyval option" where
  "result_content_text (PDict r) =
     (case map_of r ''content'' of Some (PDict c) \<Rightarrow> map_of c ''text'' | _ \<Rightarrow> None)"
| "result_content_text v = None"

fun well_formed_result :: "pyval \<Rightarrow> bool" where
  "well_formed_result (PDict r) =
     (case map_of r ''content'' of
        None \<Rightarrow> True
      | Some (PDict c) \<Rightarrow>
          (case map_of c ''text'' of
             None \<Rightarrow> True
           | Some (PList items) \<Rightarrow> list_all well_formed_span items
           | Some (PStr s) \<Rightarrow> True
           | Some v \<Rightarrow> False)
      | Some v \<Rightarrow> False)"
| "well_formed_result v = False"

definition normalized_text :: "pyval \<Rightarrow> string" where
  "normalized_text result =
     (case result_content_text result of
        Some (PList items) \<Rightarrow> concat (map span_string items)
      | Some (PStr s) \<Rightarrow> s
      | _ \<Rightarrow> [])"

subsection \<open>\<open>retrieve_from_bedrock\<close> (SageMaker notebooks)\<close>

text \<open>
  \<^verbatim>\<open>
  try:
      response = bedrock_agent_runtime.retrieve(...)
      return [result['content']['text'] for result in response['retrievalResults']]
  except Exception as e:
      raise RuntimeError(f"Bedrock retrieval failed: {str(e)}")
  \<close>
\<close>

definition retrieval_texts :: "pyval \<Rightarrow> exn + pyval list" where
  "retrieval_texts response =
     try_bind (py_getitem response (PStr ''retrievalResults'')) (\<lambda>results.
     try_bind (py_iter results) (\<lambda>rs.
       try_map (\<lambda>result. try_bind (py_getitem result (PStr ''content''))
                            (\<lambda>content. py_getitem content (PStr ''text''))) rs))"

definition retrieval_failed :: "interp \<Rightarrow> exn \<Rightarrow> exn" where
  "retrieval_failed I e = RuntimeError (''Bedrock retrieval failed: '' @ str_exn I e)"

text \<open>Lab 1: \<open>retrieve_from_bedrock(query, kb_id, num_results=5)\<close>.\<close>

definition retrieve_args_lab1 :: "string \<Rightarrow> string \<Rightarrow> int \<Rightarrow> retrieve_request" where
  "retrieve_args_lab1 query kb_id num_results =
     \<lparr> rt_knowledgeBaseId = kb_id,
       rt_retrievalQuery = PDict [(''text'', PStr query)],
       rt_retrievalConfiguration =
         PDict [(''vectorSearchConfiguration'',
                 PDict [(''numberOfResults'', PInt num_results)])] \<rparr>"

definition retrieve_from_bedrock_lab1 ::
  "interp \<Rightarrow> (retrieve_request \<Rightarrow> exn + pyval) \<Rightarrow> string \<Rightarrow> string \<Rightarrow> int \<Rightarrow> exn + pyval list" where
  "retrieve_from_bedrock_lab1 I client_retrieve query kb_id num_results =
     (case try_bind (client_retrieve (retrieve_args_lab1 query kb_id num_results)) retrieval_texts of
        Inr texts \<Rightarrow> Inr texts
      | Inl e \<Rightarrow> Inl (retrieval_failed I e))"

text \<open>
  Lab 2: \<open>retrieve_from_bedrock(query)\<close>, with the globals \<open>KNOWLEDGE_BASE_ID\<close>,
  \<open>NUM_RESULTS\<close> and \<open>one_group_filter\<close>, passed here as arguments.
\<close>

definition retrieve_args_lab2 :: "string \<Rightarrow> int \<Rightarrow> pyval \<Rightarrow> string \<Rightarrow> retrieve_request" where
  "retrieve_args_lab2 KNOWLEDGE_BASE_ID NUM_RESULTS one_group_filter query =
     \<lparr> rt_knowledgeBaseId = KNOWLEDGE_BASE_ID,
       rt_retrievalQuery = PDict [(''text'', PStr query)],
       rt_retrievalConfiguration =
         PDict [(''vectorSearchConfiguration'',
                 PDict [(''numberOfResults'', PInt NUM_RESULTS),
                        (''filter'', one_group_filter)])] \<rparr>"

definition retrieve_from_bedrock_lab2 ::
  "interp \<Rightarrow> (retrieve_request \<Rightarrow> exn + pyval) \<Rightarrow> string \<Rightarrow> int \<Rightarrow> pyval \<Rightarrow> string
     \<Rightarrow> exn + pyval list" where
  "retrieve_from_bedrock_lab2 I client_retrieve KNOWLEDGE_BASE_ID NUM_RESULTS one_group_filter query =
     (case try_bind
             (client_retrieve (retrieve_args_lab2 KNOWLEDGE_BASE_ID NUM_RESULTS one_group_filter query))
             retrieval_texts of
        Inr texts \<Rightarrow> Inr texts
      | Inl e \<Rightarrow> Inl (retrieval_failed I e))"

section \<open>Reranker: \<open>rerank_results\<close>\<close>

text \<open>The keyword arguments of \<open>client.rerank\<close>.\<close>

record rerank_request =
  rr_queries :: pyval
  rr_rerankingConfiguration :: pyval
  rr_sources :: pyval

definition rerank_args :: "string \<Rightarrow> string list \<Rightarrow> string \<Rightarrow> int \<Rightarrow> rerank_request" where
  "rerank_args query kb_results rerank_model_arn reranked_result_count =
     \<lparr> rr_queries =
         PList [PDict [(''textQuery'', PDict [(''text'', PStr query)]), (''type'', PStr ''TEXT'')]],
       rr_rerankingConfiguration =
         PDict [(''bedrockRerankingConfiguration'',
                 PDict [(''modelConfiguration'', PDict [(''modelArn'', PStr rerank_model_arn)]),
                        (''numberOfResults'', PInt reranked_result_count)]),
                (''type'', PStr ''BEDROCK_RERANKING_MODEL'')],
       rr_sources =
         PList (map (\<lambda>doc.
                  PDict [(''inlineDocumentSource'',
                          PDict [(''textDocument'', PDict [(''text'', PStr doc)]),
                                 (''type'', PStr ''TEXT'')]),
                         (''type'', PStr ''INLINE'')]) kb_results) \<rparr>"

text \<open>An entry of \<open>reranked_results\<close>.\<close>

record reranked_passage =
  original_position :: int
  new_position :: int
  relevance_score :: pyval
  passage_text :: string

text \<open>
  \<^verbatim>\<open>
  for result in reranked.get("results", []):
      idx = result.get("index", 0)
      reranked_results.append({
          "original_position": idx + 1,
          "new_position": len(reranked_results) + 1,
          "relevance_score": result.get("relevanceScore", 0),
          "text": kb_results[idx]
      })
  \<close>
  \<open>idx + 1\<close> raises \<open>TypeError\<close> unless \<open>idx\<close> is a number; for a float
  \<open>idx\<close> it is \<open>kb_results[idx]\<close> that raises \<open>TypeError\<close>. So an entry
  is built only for an \<open>int\<close> (or \<open>bool\<close>) index, and
  \<open>kb_results[idx]\<close> follows Python's list indexing.
\<close>

fun rerank_loop ::
  "string list \<Rightarrow> reranked_passage list \<Rightarrow> pyval list \<Rightarrow> exn + reranked_passage list" where
  "rerank_loop kb_results reranked_results [] = Inr reranked_results"
| "rerank_loop kb_results reranked_results (result # rest) =
     try_bind (py_get result ''index'' (PInt 0)) (\<lambda>idx.
       case as_index idx of
         None \<Rightarrow> Inl TypeError
       | Some i \<Rightarrow>
           try_bind (py_get result ''relevanceScore'' (PInt 0)) (\<lambda>score.
           try_bind (py_index kb_results i) (\<lambda>t.
             rerank_loop kb_results
               (reranked_results @
                  [\<lparr> original_position = i + 1,
                     new_position = int (length reranked_results) + 1,
                     relevance_score = score,
                     passage_text = t \<rparr>])
               rest)))"

text \<open>The entries of the backend's response, as the loop iterates over them.\<close>

definition rerank_entries :: "pyval \<Rightarrow> exn + pyval list" where
  "rerank_entries reranked =
     try_bind (py_get reranked ''results'' (PList [])) py_iter"

record rerank_output =
  original_results :: "string list"
  reranked_results :: "reranked_passage list"

text \<open>
  \<open>boto3_client\<close> is the outcome of \<open>boto3.client("bedrock-agent-runtime", ...)\<close>:
  the client's \<open>rerank\<close> method, or the exception the construction raised. There
  is no \<open>try\<close> block anywhere in the function.
\<close>

definition rerank_results ::
  "exn + (rerank_request \<Rightarrow> exn + pyval) \<Rightarrow> string \<Rightarrow> string list \<Rightarrow> string \<Rightarrow> int
     \<Rightarrow> exn + rerank_output" where
  "rerank_results boto3_client query kb_results rerank_model_arn reranked_result_count =
     try_bind boto3_client (\<lambda>client.
     try_bind (client (rerank_args query kb_results rerank_model_arn reranked_result_count))
       (\<lambda>reranked.
     try_bind (rerank_entries reranked) (\<lambda>entries.
     try_bind (rerank_loop kb_results [] entries) (\<lambda>rs.
       Inr \<lparr> original_results = kb_results, reranked_results = rs \<rparr>))))"



section \<open>Prompt assembly\<close>

subsection \<open>Context string of the reranking notebook\<close>

text \<open>
  Without reranking: \<^verbatim>\<open>kb_context = '\n\n'.join(original_kb_results)\<close>.
\<close>

definition kb_context_original :: "string list \<Rightarrow> string" where
  "kb_context_original original_kb_results = str_join ''\<newline>\<newline>'' original_kb_results"

text \<open>
  After reranking:
  \<^verbatim>\<open>
  kb_context = ""
  for result in reranked_json['reranked_results'] :
      kb_context += result['text'] + "\n\n"
  \<close>
\<close>

fun kb_context_loop :: "string \<Rightarrow> reranked_passage list \<Rightarrow> string" where
  "kb_context_loop kb_context [] = kb_context"
| "kb_context_loop kb_context (result # rest) =
     kb_context_loop (kb_context @ (passage_text result @ ''\<newline>\<newline>'')) rest"

definition kb_context_reranked :: "rerank_output \<Rightarrow> string" where
  "kb_context_reranked reranked_json = kb_context_loop [] (reranked_results reranked_json)"

text \<open>
  The system prompt of the reranking notebook, with its \<open>{kb_context}\<close> slot.
\<close>

definition rerank_system_prompt :: "string \<Rightarrow> string" where
  "rerank_system_prompt kb_context =
     ''\<newline>Please use the context below to respond to the question. \<newline>'' @
     ''If you have enough information to answer the question, please explain the reasoning behind the response.\<newline>'' @
     ''If you do not have enough information to answer the question, please don't guess. Instead, just say I don't know with the reason.\<newline>'' @
     ''CONTEXT:\<newline>'' @ kb_context @ ''\<newline>''"

subsection \<open>\<open>format_prompt\<close> (SageMaker notebook of Lab 2)\<close>

text \<open>
  \<^verbatim>\<open>
  def format_prompt(query, context):
      system_prompt = f"""Use the following context to answer the question. If you don't know the answer, say 'I don't know'.
          Context:
          {" ".join(context)}"
      """
      return f"""
          <|begin_of_text|>
          <|start_header_id|>system<|end_header_id|>
          {system_prompt}
          <|start_header_id|>user<|end_header_id|>
          Question: {query}
          <|start_header_id|>assistant<|end_header_id|>
          """.strip()
  \<close>
  \<open>context\<close> is the list \<open>retrieve_from_bedrock\<close> returned; \<open>" ".join\<close>
  raises \<open>TypeError\<close> when an element is not a string. The template begins and ends
  with white space followed by a delimiter, so \<open>strip()\<close> removes exactly the
  leading and trailing line break and indentation.
\<close>

fun all_strings :: "pyval list \<Rightarrow> exn + string list" where
  "all_strings [] = Inr []"
| "all_strings (PStr s # vs) =
     (case all_strings vs of Inl e \<Rightarrow> Inl e | Inr r \<Rightarrow> Inr (s # r))"
| "all_strings (v # vs) = Inl TypeError"

definition format_context_slot :: "pyval list \<Rightarrow> exn + string" where
  "format_context_slot context =
     try_bind (all_strings context) (\<lambda>texts. Inr (str_join '' '' texts))"

definition format_prompt :: "string \<Rightarrow> pyval list \<Rightarrow> exn + string" where
  "format_prompt query context =
     try_bind (format_context_slot context) (\<lambda>joined.
       let system_prompt =
             ''Use the following context to answer the question. If you don't know the answer, say 'I don't know'.\<newline>'' @
             ''        Context:\<newline>'' @
             ''        '' @ joined @ [CHR 0x22] @ ''\<newline>    ''
       in Inr (''<|begin_of_text|>\<newline>'' @
               ''        <|start_header_id|>system<|end_header_id|>\<newline>'' @
               ''        '' @ system_prompt @ ''\<newline>'' @
               ''        <|start_header_id|>user<|end_header_id|>\<newline>'' @
               ''        Question: '' @ query @ ''\<newline>'' @
               ''        <|start_header_id|>assistant<|end_header_id|>''))"

section \<open>Generator, raw-endpoint path: \<open>generate_response\<close>\<close>

text \<open>
  The keyword arguments of \<open>runtime.invoke_endpoint\<close>; the body is the payload
  before \<open>json.dumps\<close>.
\<close>

record endpoint_request =
  ep_EndpointName :: string
  ep_ContentType :: string
  ep_Body :: pyval

text \<open>
  \<^verbatim>\<open>
  if isinstance(result, list):
      return result[0]['generated_text']
  elif 'generated_text' in result:
      return result['generated_text']
  elif 'generation' in result:
      return result['generation']
  else:
      raise RuntimeError("Unexpected response format")
  \<close>
\<close>

fun extract_generated :: "pyval \<Rightarrow> exn + pyval" where
  "extract_generated (PList xs) =
     try_bind (py_getitem (PList xs) (PInt 0)) (\<lambda>first. py_getitem first (PStr ''generated_text''))"
| "extract_generated result =
     try_bind (py_contains ''generated_text'' result) (\<lambda>has_generated_text.
       if has_generated_text then py_getitem result (PStr ''generated_text'')
       else
         try_bind (py_contains ''generation'' result) (\<lambda>has_generation.
           if has_generation then py_getitem result (PStr ''generation'')
           else Inl (RuntimeError ''Unexpected response format'')))"

definition generation_failed :: "interp \<Rightarrow> exn \<Rightarrow> exn" where
  "generation_failed I e = RuntimeError (''Generation failed: '' @ str_exn I e)"

text \<open>
  \<^verbatim>\<open>
  runtime = boto3.client('sagemaker-runtime')
  payload = {"inputs": prompt, "parameters": generation_configuration}
  try:
      response = runtime.invoke_endpoint(EndpointName=endpoint_name,
                     ContentType='application/json', Body=json.dumps(payload))
      result = json.loads(response['Body'].read().decode("utf-8"))
      ...
  except Exception as e:
      raise RuntimeError(f"Generation failed: {str(e)}")
  \<close>
  \<open>boto3_client\<close> is the outcome of the client construction, which stands before
  the \<open>try\<close> block. Its \<open>invoke_endpoint\<close> stands for the call together
  with reading and parsing the body: it yields the parsed JSON value, or the exception
  one of these steps raised.
  The function is the same in both notebooks; in Lab 2 the endpoint name is the global
  \<open>ENDPOINT_NAME\<close>. \<open>generation_configuration\<close> is a global in both.
\<close>

definition generate_args :: "pyval \<Rightarrow> string \<Rightarrow> string \<Rightarrow> endpoint_request" where
  "generate_args generation_configuration prompt endpoint_name =
     \<lparr> ep_EndpointName = endpoint_name,
       ep_ContentType = ''application/json'',
       ep_Body = PDict [(''inputs'', PStr prompt), (''parameters'', generation_configuration)] \<rparr>"

definition generate_response ::
  "interp \<Rightarrow> exn + (endpoint_request \<Rightarrow> exn + pyval) \<Rightarrow> pyval \<Rightarrow> string \<Rightarrow> string
     \<Rightarrow> exn + pyval" where
  "generate_response I boto3_client generation_configuration prompt endpoint_name =
     try_bind boto3_client (\<lambda>invoke_endpoint.
       case try_bind (invoke_endpoint (generate_args generation_configuration prompt endpoint_name))
              extract_generated of
         Inr generated \<Rightarrow> Inr generated
       | Inl e \<Rightarrow> Inl (generation_failed I e))"

text \<open>
  The three recognized shapes in the specification's words: a list whose first element
  is a mapping with \<open>generated_text\<close>; a mapping with \<open>generated_text\<close>; a
  mapping with \<open>generation\<close>. Every other body has no generated text.
\<close>

fun recognized_text :: "pyval \<Rightarrow> pyval option" where
  "recognized_text (PList (PDict first # rest)) = map_of first ''generated_text''"
| "recognized_text (PDict d) =
     (case map_of d ''generated_text'' of
        Some v \<Rightarrow> Some v
      | None \<Rightarrow> map_of d ''generation'')"
| "recognized_text body = None"

section \<open>Guardrail post-filter: \<open>apply_output_guardrail\<close>\<close>

text \<open>The keyword arguments of \<open>bedrock_client.apply_guardrail\<close>.\<close>

record guardrail_request =
  gr_guardrailIdentifier :: pyval
  gr_guardrailVersion :: pyval
  gr_source :: string
  gr_content :: pyval

definition guardrail_args :: "pyval \<Rightarrow> pyval \<Rightarrow> string \<Rightarrow> guardrail_request" where
  "guardrail_args guardrail_id guardrail_version output_text =
     \<lparr> gr_guardrailIdentifier = guardrail_id,
       gr_guardrailVersion = guardrail_version,
       gr_source = ''OUTPUT'',
       gr_content = PList [PDict [(''text'', PDict [(''text'', PStr output_text)])]] \<rparr>"

text \<open>
  \<^verbatim>\<open>
  if 'outputs' in response and response['outputs']:
      return response['outputs'][0]['text']
  else:
      return output_text
  \<close>
\<close>

definition guardrail_outcome :: "string \<Rightarrow> pyval \<Rightarrow> exn + pyval" where
  "guardrail_outcome output_text response =
     try_bind (py_contains ''outputs'' response) (\<lambda>has_outputs.
       if \<not> has_outputs then Inr (PStr output_text)
       else
         try_bind (py_getitem response (PStr ''outputs'')) (\<lambda>outputs.
           if \<not> py_truthy outputs then Inr (PStr output_text)
           else
             try_bind (py_getitem response (PStr ''outputs'')) (\<lambda>outputs'.
             try_bind (py_getitem outputs' (PInt 0)) (\<lambda>first.
               py_getitem first (PStr ''text'')))))"

text \<open>
  The body of the \<open>try\<close> block: the identifier and the version are read from the
  global dictionary \<open>variables\<close>, then the service is called.
\<close>

definition guardrail_try ::
  "pyval \<Rightarrow> (guardrail_request \<Rightarrow> exn + pyval) \<Rightarrow> string \<Rightarrow> exn + pyval" where
  "guardrail_try variables apply_guardrail output_text =
     try_bind (py_getitem variables (PStr ''guardrail_id'')) (\<lambda>guardrail_id.
     try_bind (py_getitem variables (PStr ''guardrail_version'')) (\<lambda>guardrail_version.
     try_bind (apply_guardrail (guardrail_args guardrail_id guardrail_version output_text))
       (guardrail_outcome output_text)))"

text \<open>
  \<^verbatim>\<open>
  except Exception as e:
      print(f"Warning: Output guardrail application failed: {str(e)}")
      return output_text
  \<close>
  The result is the returned value together with the lines printed.
\<close>

definition apply_output_guardrail ::
  "interp \<Rightarrow> pyval \<Rightarrow> (guardrail_request \<Rightarrow> exn + pyval) \<Rightarrow> string
     \<Rightarrow> exn + (pyval \<times> string list)" where
  "apply_output_guardrail I variables apply_guardrail output_text =
     (case guardrail_try variables apply_guardrail output_text of
        Inr filtered \<Rightarrow> Inr (filtered, [])
      | Inl e \<Rightarrow>
          Inr (PStr output_text,
               [''Warning: Output guardrail application failed: '' @ str_exn I e]))"

section \<open>Properties of the key-path resolver\<close>

lemma py_index_raises: "py_index xs i = Inl e \<Longrightarrow> e = IndexError"
  by (simp add: py_index_def split: if_splits)

lemma py_getitem_raises: "py_getitem c k = Inl e \<Longrightarrow> key_path_handles e"
  by (induction c k rule: py_getitem.induct)
     (auto split: option.splits sum.splits dest: py_index_raises)

lemma get_value_by_key_path_refines:
  "get_value_by_key_path d path =
     Inr (case successive_index d path of Inr v \<Rightarrow> v | Inl e \<Rightarrow> PNone)"
proof (induction path arbitrary: d)
  case Nil
  show ?case by simp
next
  case (Cons key path)
  show ?case
  proof (cases "py_getitem d key")
    case (Inl e)
    then show ?thesis using py_getitem_raises [OF Inl] by simp
  next
    case (Inr v)
    then show ?thesis using Cons.IH [of v] by simp
  qed
qed

text \<open>
  Claim C2. For every nested structure and every key/index path,
  \<open>get_value_by_key_path\<close> never raises; when every indexing step succeeds it
  returns the value reached by successively indexing; when some step fails (the value is
  not indexable by the key, the key or index does not exist, the type is unexpected) it
  returns \<open>None\<close>.
\<close>

theorem get_value_by_key_path_total:
  "(\<exists>v. get_value_by_key_path d path = Inr v)
   \<and> (\<forall>v. successive_index d path = Inr v \<longrightarrow> get_value_by_key_path d path = Inr v)
   \<and> (\<forall>e. successive_index d path = Inl e \<longrightarrow> get_value_by_key_path d path = Inr PNone)"
  by (simp add: get_value_by_key_path_refines)

theorem get_value_by_key_path_total_witness:
  "get_value_by_key_path
     (PDict [(''output'', PDict [(''message'', PDict [(''content'', PList [PStr ''hi''])])])])
     [PStr ''output'', PStr ''message'', PStr ''content'', PInt 0] = Inr (PStr ''hi'')
   \<and> get_value_by_key_path
     (PDict [(''output'', PList [PInt 7])]) [PStr ''output'', PInt 3, PStr ''content''] = Inr PNone"
proof -
  have reached: "successive_index
     (PDict [(''output'', PDict [(''message'', PDict [(''content'', PList [PStr ''hi''])])])])
     [PStr ''output'', PStr ''message'', PStr ''content'', PInt 0] = Inr (PStr ''hi'')"
    by (simp add: py_index_def)
  have failed: "successive_index
     (PDict [(''output'', PList [PInt 7])]) [PStr ''output'', PInt 3, PStr ''content'']
       = Inl IndexError"
    by (simp add: py_index_def)
  from reached get_value_by_key_path_total
    [of "PDict [(''output'', PDict [(''message'', PDict [(''content'', PList [PStr ''hi''])])])]"
        "[PStr ''output'', PStr ''message'', PStr ''content'', PInt 0]"]
  have first: "get_value_by_key_path
     (PDict [(''output'', PDict [(''message'', PDict [(''content'', PList [PStr ''hi''])])])])
     [PStr ''output'', PStr ''message'', PStr ''content'', PInt 0] = Inr (PStr ''hi'')"
    by blast
  from failed get_value_by_key_path_total
    [of "PDict [(''output'', PList [PInt 7])]" "[PStr ''output'', PInt 3, PStr ''content'']"]
  have second: "get_value_by_key_path
     (PDict [(''output'', PList [PInt 7])]) [PStr ''output'', PInt 3, PStr ''content''] = Inr PNone"
    by blast
  from first second show ?thesis by blast
qed

lemma try_bind_simps:
  "try_bind (Inl e) f = Inl e"
  "try_bind (Inr x) f = f x"
  by (simp_all add: try_bind_def)

section \<open>Properties of the guardrail post-filter\<close>

text \<open>
  Claim C1. For every input text and every guardrail identifier and version, when the
  policy-evaluation call raises (a transport failure), or its response is malformed or
  lacks a field so that reading it raises, or any other step of the \<open>try\<close> block
  raises, \<open>apply_output_guardrail\<close> returns exactly the input text and does not
  raise; it prints one warning line.
\<close>

theorem apply_output_guardrail_passthrough:
  "(\<exists>r. apply_output_guardrail I variables apply_guardrail output_text = Inr r)
   \<and> (\<forall>gid gver e.
         py_getitem variables (PStr ''guardrail_id'') = Inr gid \<longrightarrow>
         py_getitem variables (PStr ''guardrail_version'') = Inr gver \<longrightarrow>
         apply_guardrail (guardrail_args gid gver output_text) = Inl e \<longrightarrow>
         apply_output_guardrail I variables apply_guardrail output_text =
           Inr (PStr output_text,
                [''Warning: Output guardrail application failed: '' @ str_exn I e]))
   \<and> (\<forall>gid gver response e.
         py_getitem variables (PStr ''guardrail_id'') = Inr gid \<longrightarrow>
         py_getitem variables (PStr ''guardrail_version'') = Inr gver \<longrightarrow>
         apply_guardrail (guardrail_args gid gver output_text) = Inr response \<longrightarrow>
         guardrail_outcome output_text response = Inl e \<longrightarrow>
         apply_output_guardrail I variables apply_guardrail output_text =
           Inr (PStr output_text,
                [''Warning: Output guardrail application failed: '' @ str_exn I e]))
   \<and> (\<forall>e. guardrail_try variables apply_guardrail output_text = Inl e \<longrightarrow>
         apply_output_guardrail I variables apply_guardrail output_text =
           Inr (PStr output_text,
                [''Warning: Output guardrail application failed: '' @ str_exn I e]))"
proof (intro conjI allI impI)
  show "\<exists>r. apply_output_guardrail I variables apply_guardrail output_text = Inr r"
    by (cases "guardrail_try variables apply_guardrail output_text")
       (simp_all add: apply_output_guardrail_def)
next
  fix gid gver e
  assume "py_getitem variables (PStr ''guardrail_id'') = Inr gid"
    and "py_getitem variables (PStr ''guardrail_version'') = Inr gver"
    and "apply_guardrail (guardrail_args gid gver output_text) = Inl e"
  then have "guardrail_try variables apply_guardrail output_text = Inl e"
    by (simp add: guardrail_try_def try_bind_simps)
  then show "apply_output_guardrail I variables apply_guardrail output_text =
           Inr (PStr output_text,
                [''Warning: Output guardrail application failed: '' @ str_exn I e])"
    by (simp add: apply_output_guardrail_def)
next
  fix gid gver response e
  assume "py_getitem variables (PStr ''guardrail_id'') = Inr gid"
    and "py_getitem variables (PStr ''guardrail_version'') = Inr gver"
    and "apply_guardrail (guardrail_args gid gver output_text) = Inr response"
    and "guardrail_outcome output_text response = Inl e"
  then have "guardrail_try variables apply_guardrail output_text = Inl e"
    by (simp add: guardrail_try_def try_bind_simps)
  then show "apply_output_guardrail I variables apply_guardrail output_text =
           Inr (PStr output_text,
                [''Warning: Output guardrail application failed: '' @ str_exn I e])"
    by (simp add: apply_output_guardrail_def)
next
  fix e
  assume "guardrail_try variables apply_guardrail output_text = Inl e"
  then show "apply_output_guardrail I variables apply_guardrail output_text =
           Inr (PStr output_text,
                [''Warning: Output guardrail application failed: '' @ str_exn I e])"
    by (simp add: apply_output_guardrail_def)
qed

theorem apply_output_guardrail_passthrough_witness:
  "apply_output_guardrail example_interp
     (PDict [(''guardrail_id'', PStr ''gr-1''), (''guardrail_version'', PStr ''1'')])
     (\<lambda>r. Inl (BackendError ''throttled'')) ''The answer.''
     = Inr (PStr ''The answer.'',
            [''Warning: Output guardrail application failed: throttled''])
   \<and> apply_output_guardrail example_interp
     (PDict [(''guardrail_id'', PStr ''gr-1''), (''guardrail_version'', PStr ''1'')])
     (\<lambda>r. Inr (PDict [(''outputs'', PList [PDict [(''action'', PStr ''NONE'')]])])) ''The answer.''
     = Inr (PStr ''The answer.'',
            [''Warning: Output guardrail application failed: builtin error''])"
proof -
  let ?vars = "PDict [(''guardrail_id'', PStr ''gr-1''), (''guardrail_version'', PStr ''1'')]"
  let ?down = "\<lambda>r :: guardrail_request. Inl (BackendError ''throttled'') :: exn + pyval"
  let ?resp = "PDict [(''outputs'', PList [PDict [(''action'', PStr ''NONE'')]])]"
  let ?odd = "\<lambda>r :: guardrail_request. Inr ?resp :: exn + pyval"
  have gid: "py_getitem ?vars (PStr ''guardrail_id'') = Inr (PStr ''gr-1'')" by simp
  have gver: "py_getitem ?vars (PStr ''guardrail_version'') = Inr (PStr ''1'')" by simp
  have raised: "?down (guardrail_args (PStr ''gr-1'') (PStr ''1'') ''The answer.'')
                  = Inl (BackendError ''throttled'')"
    by simp
  have answered: "?odd (guardrail_args (PStr ''gr-1'') (PStr ''1'') ''The answer.'') = Inr ?resp"
    by simp
  have malformed: "guardrail_outcome ''The answer.'' ?resp = Inl (KeyError (PStr ''text''))"
    by (simp add: guardrail_outcome_def try_bind_simps py_index_def)
  from apply_output_guardrail_passthrough [of example_interp ?vars ?down "''The answer.''"]
    gid gver raised
  have "apply_output_guardrail example_interp ?vars ?down ''The answer.''
          = Inr (PStr ''The answer.'',
                 [''Warning: Output guardrail application failed: '' @
                    str_exn example_interp (BackendError ''throttled'')])"
    by blast
  then have first: "apply_output_guardrail example_interp ?vars ?down ''The answer.''
          = Inr (PStr ''The answer.'',
                 [''Warning: Output guardrail application failed: throttled''])"
    by simp
  from apply_output_guardrail_passthrough [of example_interp ?vars ?odd "''The answer.''"]
    gid gver answered malformed
  have "apply_output_guardrail example_interp ?vars ?odd ''The answer.''
          = Inr (PStr ''The answer.'',
                 [''Warning: Output guardrail application failed: '' @
                    str_exn example_interp (KeyError (PStr ''text''))])"
    by blast
  then have second: "apply_output_guardrail example_interp ?vars ?odd ''The answer.''
          = Inr (PStr ''The answer.'',
                 [''Warning: Output guardrail application failed: builtin error''])"
    by (simp add: example_interp_def)
  from first second show ?thesis by blast
qed

section \<open>Properties of the raw-endpoint generator\<close>

lemma extract_generated_recognized:
  "recognized_text body = Some v \<Longrightarrow> extract_generated body = Inr v"
  by (induction body rule: recognized_text.induct)
     (auto simp: try_bind_simps py_index_def split: option.splits)

lemma extract_generated_unrecognized:
  "recognized_text body = None \<Longrightarrow> \<exists>e. extract_generated body = Inl e"
proof (induction body rule: recognized_text.induct)
  case (1 first rest)
  then show ?case by (simp add: try_bind_simps py_index_def)
next
  case (2 d)
  then show ?case by (auto simp: try_bind_simps split: option.splits)
qed (auto simp: try_bind_simps py_index_def)


text \<open>
  Claim C4. For every parsed response body, \<open>generate_response\<close> returns the first
  element's \<open>generated_text\<close> when the body is a list, else the value under
  \<open>generated_text\<close> when the body is a mapping that has it, else the value under
  \<open>generation\<close> when the body is a mapping that has it; for every other shape it
  raises a \<open>RuntimeError\<close> ("Generation failed: ...") and returns nothing.
\<close>

theorem generate_response_shapes:
  "boto3_client = Inr invoke_endpoint \<Longrightarrow>
   invoke_endpoint (generate_args generation_configuration prompt endpoint_name) = Inr body \<Longrightarrow>
     (\<forall>v. recognized_text body = Some v \<longrightarrow>
          generate_response I boto3_client generation_configuration prompt endpoint_name = Inr v)
   \<and> (recognized_text body = None \<longrightarrow>
          (\<exists>e. generate_response I boto3_client generation_configuration prompt endpoint_name =
                 Inl (RuntimeError (''Generation failed: '' @ str_exn I e))))"
proof (intro conjI allI impI)
  assume client: "boto3_client = Inr invoke_endpoint"
  assume call: "invoke_endpoint (generate_args generation_configuration prompt endpoint_name) = Inr body"
  {
    fix v
    assume "recognized_text body = Some v"
    then have "extract_generated body = Inr v"
      by (rule extract_generated_recognized)
    with client call
    show "generate_response I boto3_client generation_configuration prompt endpoint_name = Inr v"
      by (simp add: generate_response_def try_bind_simps)
  }
  {
    assume "recognized_text body = None"
    then obtain e where "extract_generated body = Inl e"
      using extract_generated_unrecognized by blast
    with client call
    have "generate_response I boto3_client generation_configuration prompt endpoint_name =
            Inl (RuntimeError (''Generation failed: '' @ str_exn I e))"
      by (simp add: generate_response_def generation_failed_def try_bind_simps)
    then show "\<exists>e. generate_response I boto3_client generation_configuration prompt endpoint_name =
                 Inl (RuntimeError (''Generation failed: '' @ str_exn I e))"
      by blast
  }
qed

theorem generate_response_shapes_witness:
  "generate_response example_interp
     (Inr (\<lambda>r. Inr (PList [PDict [(''generated_text'', PStr ''X'')]]))) (PDict []) ''p'' ''ep'' = Inr (PStr ''X'')
   \<and> generate_response example_interp
     (Inr (\<lambda>r. Inr (PDict [(''generated_text'', PStr ''X'')]))) (PDict []) ''p'' ''ep'' = Inr (PStr ''X'')
   \<and> generate_response example_interp
     (Inr (\<lambda>r. Inr (PDict [(''generation'', PStr ''X'')]))) (PDict []) ''p'' ''ep'' = Inr (PStr ''X'')
   \<and> (\<exists>e. generate_response example_interp
     (Inr (\<lambda>r. Inr (PDict [(''answer'', PStr ''X'')]))) (PDict []) ''p'' ''ep'' =
       Inl (RuntimeError (''Generation failed: '' @
              str_exn example_interp e)))"
proof -
  let ?I = "example_interp"
  have r1: "recognized_text (PList [PDict [(''generated_text'', PStr ''X'')]]) = Some (PStr ''X'')"
    by simp
  have r2: "recognized_text (PDict [(''generated_text'', PStr ''X'')]) = Some (PStr ''X'')"
    by simp
  have r3: "recognized_text (PDict [(''generation'', PStr ''X'')]) = Some (PStr ''X'')"
    by simp
  have r4: "recognized_text (PDict [(''answer'', PStr ''X'')]) = None"
    by simp
  have c1: "(\<lambda>r. Inr (PList [PDict [(''generated_text'', PStr ''X'')]]) :: exn + pyval)
              (generate_args (PDict []) ''p'' ''ep'') = Inr (PList [PDict [(''generated_text'', PStr ''X'')]])"
    by simp
  have c2: "(\<lambda>r. Inr (PDict [(''generated_text'', PStr ''X'')]) :: exn + pyval)
              (generate_args (PDict []) ''p'' ''ep'') = Inr (PDict [(''generated_text'', PStr ''X'')])"
    by simp
  have c3: "(\<lambda>r. Inr (PDict [(''generation'', PStr ''X'')]) :: exn + pyval)
              (generate_args (PDict []) ''p'' ''ep'') = Inr (PDict [(''generation'', PStr ''X'')])"
    by simp
  have c4: "(\<lambda>r. Inr (PDict [(''answer'', PStr ''X'')]) :: exn + pyval)
              (generate_args (PDict []) ''p'' ''ep'') = Inr (PDict [(''answer'', PStr ''X'')])"
    by simp
  from generate_response_shapes [OF refl c1, of ?I] r1
  have a1: "generate_response ?I (Inr (\<lambda>r. Inr (PList [PDict [(''generated_text'', PStr ''X'')]])))
              (PDict []) ''p'' ''ep'' = Inr (PStr ''X'')"
    by blast
  from generate_response_shapes [OF refl c2, of ?I] r2
  have a2: "generate_response ?I (Inr (\<lambda>r. Inr (PDict [(''generated_text'', PStr ''X'')])))
              (PDict []) ''p'' ''ep'' = Inr (PStr ''X'')"
    by blast
  from generate_response_shapes [OF refl c3, of ?I] r3
  have a3: "generate_response ?I (Inr (\<lambda>r. Inr (PDict [(''generation'', PStr ''X'')])))
              (PDict []) ''p'' ''ep'' = Inr (PStr ''X'')"
    by blast
  from generate_response_shapes [OF refl c4, of ?I] r4
  have a4: "\<exists>e. generate_response ?I (Inr (\<lambda>r. Inr (PDict [(''answer'', PStr ''X'')])))
              (PDict []) ''p'' ''ep'' = Inl (RuntimeError (''Generation failed: '' @ str_exn ?I e))"
    by blast
  from a1 a2 a3 a4 show ?thesis by blast
qed


section \<open>Failure handling of retrieval and generation\<close>

lemma try_map_length: "try_map f xs = Inr ys \<Longrightarrow> length ys = length xs"
  by (induction xs arbitrary: ys) (auto split: sum.splits)

lemma search_kb_loop_length:
  "search_kb_loop I i documents originals rs = Inr out \<Longrightarrow>
     length out = length documents + length rs"
proof (induction rs arbitrary: i documents originals)
  case Nil
  then show ?case by simp
next
  case (Cons r rs)
  from Cons.prems obtain t score where
    "search_kb_loop I (i + 1) (documents @ [t])
       (originals @ [\<lparr> or_position = i + 1, or_score = score, or_text = t \<rparr>]) rs = Inr out"
    by (auto simp: try_bind_def split: sum.splits)
  from Cons.IH [OF this] show ?case by simp
qed

text \<open>
  Claim C5, as amended. \<open>retrieve_from_bedrock\<close> (both notebooks) catches an error
  of the knowledge-base search and raises a \<open>RuntimeError\<close> whose message is
  "Bedrock retrieval failed: " followed by the original error text. \<open>search_kb\<close>
  has no handler: the backend's error leaves it unchanged. Neither returns partial
  results: a returned list has one text per result of the response.
\<close>

theorem retrieval_failure_handling:
  "(\<forall>e. client_retrieve (retrieve_args_lab1 query kb_id num_results) = Inl e \<longrightarrow>
        retrieve_from_bedrock_lab1 I client_retrieve query kb_id num_results =
          Inl (RuntimeError (''Bedrock retrieval failed: '' @ str_exn I e)))
   \<and> (\<forall>e. client_retrieve (retrieve_args_lab2 kb_id num_results flt query) = Inl e \<longrightarrow>
        retrieve_from_bedrock_lab2 I client_retrieve kb_id num_results flt query =
          Inl (RuntimeError (''Bedrock retrieval failed: '' @ str_exn I e)))
   \<and> (\<forall>e. client_retrieve (search_kb_args query kb_id num_results) = Inl e \<longrightarrow>
        search_kb I (Inr client_retrieve) query kb_id num_results = Inl e)
   \<and> (\<forall>texts. retrieve_from_bedrock_lab1 I client_retrieve query kb_id num_results = Inr texts \<longrightarrow>
        (\<exists>response results rs.
           client_retrieve (retrieve_args_lab1 query kb_id num_results) = Inr response
           \<and> py_getitem response (PStr ''retrievalResults'') = Inr results
           \<and> py_iter results = Inr rs \<and> length texts = length rs))
   \<and> (\<forall>texts. retrieve_from_bedrock_lab2 I client_retrieve kb_id num_results flt query = Inr texts \<longrightarrow>
        (\<exists>response results rs.
           client_retrieve (retrieve_args_lab2 kb_id num_results flt query) = Inr response
           \<and> py_getitem response (PStr ''retrievalResults'') = Inr results
           \<and> py_iter results = Inr rs \<and> length texts = length rs))
   \<and> (\<forall>documents. search_kb I (Inr client_retrieve) query kb_id num_results = Inr documents \<longrightarrow>
        (\<exists>response results rs.
           client_retrieve (search_kb_args query kb_id num_results) = Inr response
           \<and> py_get response ''retrievalResults'' (PList []) = Inr results
           \<and> py_iter results = Inr rs \<and> length documents = length rs))"
proof (intro conjI allI impI)
  fix e
  assume "client_retrieve (retrieve_args_lab1 query kb_id num_results) = Inl e"
  then show "retrieve_from_bedrock_lab1 I client_retrieve query kb_id num_results =
          Inl (RuntimeError (''Bedrock retrieval failed: '' @ str_exn I e))"
    by (simp add: retrieve_from_bedrock_lab1_def retrieval_failed_def try_bind_simps)
next
  fix e
  assume "client_retrieve (retrieve_args_lab2 kb_id num_results flt query) = Inl e"
  then show "retrieve_from_bedrock_lab2 I client_retrieve kb_id num_results flt query =
          Inl (RuntimeError (''Bedrock retrieval failed: '' @ str_exn I e))"
    by (simp add: retrieve_from_bedrock_lab2_def retrieval_failed_def try_bind_simps)
next
  fix e
  assume "client_retrieve (search_kb_args query kb_id num_results) = Inl e"
  then show "search_kb I (Inr client_retrieve) query kb_id num_results = Inl e"
    by (simp add: search_kb_def try_bind_simps)
next
  fix texts
  assume "retrieve_from_bedrock_lab1 I client_retrieve query kb_id num_results = Inr texts"
  then show "\<exists>response results rs.
           client_retrieve (retrieve_args_lab1 query kb_id num_results) = Inr response
           \<and> py_getitem response (PStr ''retrievalResults'') = Inr results
           \<and> py_iter results = Inr rs \<and> length texts = length rs"
    by (auto simp: retrieve_from_bedrock_lab1_def retrieval_texts_def try_bind_def
             split: sum.splits dest: try_map_length)
next
  fix texts
  assume "retrieve_from_bedrock_lab2 I client_retrieve kb_id num_results flt query = Inr texts"
  then show "\<exists>response results rs.
           client_retrieve (retrieve_args_lab2 kb_id num_results flt query) = Inr response
           \<and> py_getitem response (PStr ''retrievalResults'') = Inr results
           \<and> py_iter results = Inr rs \<and> length texts = length rs"
    by (auto simp: retrieve_from_bedrock_lab2_def retrieval_texts_def try_bind_def
             split: sum.splits dest: try_map_length)
next
  fix documents
  assume "search_kb I (Inr client_retrieve) query kb_id num_results = Inr documents"
  then show "\<exists>response results rs.
           client_retrieve (search_kb_args query kb_id num_results) = Inr response
           \<and> py_get response ''retrievalResults'' (PList []) = Inr results
           \<and> py_iter results = Inr rs \<and> length documents = length rs"
    by (auto simp: search_kb_def try_bind_def split: sum.splits dest: search_kb_loop_length)
qed

theorem retrieval_failure_handling_witness:
  "retrieve_from_bedrock_lab1 example_interp (\<lambda>r. Inl (BackendError ''AccessDenied'')) ''q'' ''kb'' 5
     = Inl (RuntimeError ''Bedrock retrieval failed: AccessDenied'')
   \<and> retrieve_from_bedrock_lab2 example_interp (\<lambda>r. Inl (BackendError ''AccessDenied''))
       ''kb'' 3 (PDict []) ''q''
     = Inl (RuntimeError ''Bedrock retrieval failed: AccessDenied'')
   \<and> search_kb example_interp (Inr (\<lambda>r. Inl (BackendError ''AccessDenied''))) ''q'' ''kb'' 5
     = Inl (BackendError ''AccessDenied'')
   \<and> retrieve_from_bedrock_lab1 example_interp
       (\<lambda>r. Inr (PDict [(''retrievalResults'',
                 PList [PDict [(''content'', PDict [(''text'', PStr ''one'')])],
                        PDict [(''content'', PDict [(''text'', PStr ''two'')])]])])) ''q'' ''kb'' 5
     = Inr [PStr ''one'', PStr ''two'']"
proof -
  let ?down = "\<lambda>r :: retrieve_request. Inl (BackendError ''AccessDenied'') :: exn + pyval"
  have "?down (retrieve_args_lab1 ''q'' ''kb'' 5) = Inl (BackendError ''AccessDenied'')"
    by simp
  with retrieval_failure_handling
         [where client_retrieve = ?down and kb_id = "''kb''" and num_results = 5
            and I = example_interp and query = "''q''"]
  have "retrieve_from_bedrock_lab1 example_interp ?down ''q'' ''kb'' 5
          = Inl (RuntimeError (''Bedrock retrieval failed: '' @
                   str_exn example_interp (BackendError ''AccessDenied'')))"
    by blast
  then have lab1: "retrieve_from_bedrock_lab1 example_interp ?down ''q'' ''kb'' 5
          = Inl (RuntimeError ''Bedrock retrieval failed: AccessDenied'')"
    by simp
  have "?down (retrieve_args_lab2 ''kb'' 3 (PDict []) ''q'') = Inl (BackendError ''AccessDenied'')"
    by simp
  with retrieval_failure_handling
         [where client_retrieve = ?down and kb_id = "''kb''" and num_results = 3
            and I = example_interp and flt = "PDict []" and query = "''q''"]
  have "retrieve_from_bedrock_lab2 example_interp ?down ''kb'' 3 (PDict []) ''q''
          = Inl (RuntimeError (''Bedrock retrieval failed: '' @
                   str_exn example_interp (BackendError ''AccessDenied'')))"
    by blast
  then have lab2: "retrieve_from_bedrock_lab2 example_interp ?down ''kb'' 3 (PDict []) ''q''
          = Inl (RuntimeError ''Bedrock retrieval failed: AccessDenied'')"
    by simp
  have "?down (search_kb_args ''q'' ''kb'' 5) = Inl (BackendError ''AccessDenied'')"
    by simp
  with retrieval_failure_handling
         [where client_retrieve = ?down and kb_id = "''kb''" and num_results = 5
            and I = example_interp and query = "''q''"]
  have kb: "search_kb example_interp (Inr ?down) ''q'' ''kb'' 5 = Inl (BackendError ''AccessDenied'')"
    by blast
  have whole: "retrieve_from_bedrock_lab1 example_interp
       (\<lambda>r. Inr (PDict [(''retrievalResults'',
                 PList [PDict [(''content'', PDict [(''text'', PStr ''one'')])],
                        PDict [(''content'', PDict [(''text'', PStr ''two'')])]])])) ''q'' ''kb'' 5
     = Inr [PStr ''one'', PStr ''two'']"
    by (simp add: retrieve_from_bedrock_lab1_def retrieval_texts_def try_bind_simps)
  from lab1 lab2 kb whole show ?thesis by blast
qed

text \<open>
  The claim as stated fails for \<open>search_kb\<close>: a timeout of the search leaves the
  function as the backend's own error, not as a \<open>RuntimeError\<close>.
\<close>

theorem search_kb_unclassified_counterexample:
  "search_kb example_interp
     (Inr (\<lambda>r. Inl (BackendError ''timeout''))) ''q'' ''kb'' 5 = Inl (BackendError ''timeout'')
   \<and> (\<forall>m. search_kb example_interp
     (Inr (\<lambda>r. Inl (BackendError ''timeout''))) ''q'' ''kb'' 5 \<noteq> Inl (RuntimeError m))"
  by (simp add: search_kb_def try_bind_simps)

text \<open>
  Claim C6, as amended. On the raw-endpoint path a transport failure is caught and
  raised again as a \<open>RuntimeError\<close> whose message is "Generation failed: "
  followed by the cause. On the conversational path \<open>invoke_converse\<close> catches
  it, prints "Error in invoke_converse: " followed by the cause, and returns
  \<open>(None, None)\<close>: no failure is raised to the caller.
\<close>

theorem generation_failure_handling:
  "(\<forall>e. invoke_endpoint (generate_args generation_configuration prompt endpoint_name) = Inl e \<longrightarrow>
        generate_response I (Inr invoke_endpoint) generation_configuration prompt endpoint_name =
          Inl (RuntimeError (''Generation failed: '' @ str_exn I e)))
   \<and> (\<forall>e. client_converse (converse_args system_prompt user_prompt model_id temperature max_tokens) = Inl e \<longrightarrow>
        invoke_converse I (Inr client_converse) system_prompt user_prompt model_id temperature max_tokens =
          Inr ((PNone, PNone), [''Error in invoke_converse: '' @ str_exn I e]))
   \<and> (\<forall>e. invoke_converse I (Inl e) system_prompt user_prompt model_id temperature max_tokens =
          Inr ((PNone, PNone), [''Error in invoke_converse: '' @ str_exn I e]))"
  by (simp add: generate_response_def generation_failed_def invoke_converse_def try_bind_simps)

theorem generation_failure_handling_witness:
  "generate_response example_interp (Inr (\<lambda>r. Inl (BackendError ''Read timed out'')))
     (PDict [(''temperature'', PInt 0)]) ''prompt'' ''endpoint''
     = Inl (RuntimeError ''Generation failed: Read timed out'')
   \<and> invoke_converse example_interp (Inr (\<lambda>r. Inl (BackendError ''Read timed out'')))
       ''system'' ''question'' ''model'' (PFloat 0x3FB999999999999A) 4000
     = Inr ((PNone, PNone), [''Error in invoke_converse: Read timed out''])"
proof -
  let ?ep = "\<lambda>r :: endpoint_request. Inl (BackendError ''Read timed out'') :: exn + pyval"
  let ?cv = "\<lambda>r :: converse_request. Inl (BackendError ''Read timed out'') :: exn + pyval"
  have "?ep (generate_args (PDict [(''temperature'', PInt 0)]) ''prompt'' ''endpoint'')
          = Inl (BackendError ''Read timed out'')"
    by simp
  with generation_failure_handling
         [where invoke_endpoint = ?ep and generation_configuration = "PDict [(''temperature'', PInt 0)]"
            and prompt = "''prompt''" and endpoint_name = "''endpoint''" and I = example_interp]
  have "generate_response example_interp (Inr ?ep) (PDict [(''temperature'', PInt 0)]) ''prompt'' ''endpoint''
          = Inl (RuntimeError (''Generation failed: '' @
                   str_exn example_interp (BackendError ''Read timed out'')))"
    by blast
  then have raw: "generate_response example_interp (Inr ?ep) (PDict [(''temperature'', PInt 0)])
                    ''prompt'' ''endpoint''
          = Inl (RuntimeError ''Generation failed: Read timed out'')"
    by simp
  have "?cv (converse_args ''system'' ''question'' ''model'' (PFloat 0x3FB999999999999A) 4000)
          = Inl (BackendError ''Read timed out'')"
    by simp
  with generation_failure_handling
         [where client_converse = ?cv and system_prompt = "''system''"
            and user_prompt = "''question''" and model_id = "''model''"
            and temperature = "PFloat 0x3FB999999999999A" and max_tokens = 4000
            and I = example_interp]
  have "invoke_converse example_interp (Inr ?cv) ''system'' ''question'' ''model''
          (PFloat 0x3FB999999999999A) 4000
          = Inr ((PNone, PNone), [''Error in invoke_converse: '' @
                   str_exn example_interp (BackendError ''Read timed out'')])"
    by blast
  then have conv: "invoke_converse example_interp (Inr ?cv) ''system'' ''question'' ''model''
          (PFloat 0x3FB999999999999A) 4000
          = Inr ((PNone, PNone), [''Error in invoke_converse: Read timed out''])"
    by simp
  from raw conv show ?thesis by blast
qed

text \<open>
  The claim as stated fails for \<open>invoke_converse\<close>: with a backend that times out
  the call returns normally, and the pair it returns does not hold the cause.
\<close>

theorem invoke_converse_swallows_counterexample:
  "invoke_converse example_interp
     (Inr (\<lambda>r. Inl (BackendError ''Read timed out''))) ''system'' ''question'' ''model''
     (PFloat 0x3FB999999999999A) 4000
     = Inr ((PNone, PNone), [''Error in invoke_converse: Read timed out''])
   \<and> (\<forall>e. invoke_converse example_interp
     (Inr (\<lambda>r. Inl (BackendError ''Read timed out''))) ''system'' ''question'' ''model''
     (PFloat 0x3FB999999999999A) 4000 \<noteq> Inl e)"
  by (simp add: invoke_converse_def try_bind_simps)

section \<open>The request of the conversational path\<close>

text \<open>
  Claim C8 at \<open>max_tokens = 100\<close>, with a backend that echoes the inference
  configuration it was sent: the request holds one user turn and the system prompt in a
  field of its own, the caller's temperature, and \<open>maxTokens = 4096\<close>, not the
  caller's \<open>max_tokens\<close>.
\<close>

theorem invoke_converse_max_tokens_ignored:
  "invoke_converse example_interp
     (Inr (\<lambda>r. Inr (PDict [(''ResponseMetadata'', PDict [(''HTTPStatusCode'', PInt 200)]),
                     (''output'', PDict [(''message'', PDict [(''content'', PList [PDict [(''text'', PStr ''ok'')]])])]),
                     (''submittedInferenceConfig'', cv_inferenceConfig r)])))
     ''system'' ''question'' ''model'' (PFloat 0x3FB999999999999A) 100
   = Inr ((PStr ''ok'',
           PDict [(''ResponseMetadata'', PDict [(''HTTPStatusCode'', PInt 200)]),
                  (''output'', PDict [(''message'', PDict [(''content'', PList [PDict [(''text'', PStr ''ok'')]])])]),
                  (''submittedInferenceConfig'',
                   PDict [(''maxTokens'', PInt 4096), (''temperature'', PFloat 0x3FB999999999999A)])]),
          [])"
  by (simp add: invoke_converse_def converse_args_def converse_answer_def try_bind_simps)


section \<open>Properties of the reranker\<close>

lemma rerank_loop_step:
  assumes "rerank_loop kb acc (entry # rest) = Inr rs"
  obtains idx i score t where
    "py_get entry ''index'' (PInt 0) = Inr idx" "as_index idx = Some i"
    "py_get entry ''relevanceScore'' (PInt 0) = Inr score"
    "py_index kb i = Inr t"
    "rerank_loop kb
       (acc @ [\<lparr> original_position = i + 1, new_position = int (length acc) + 1,
                  relevance_score = score, passage_text = t \<rparr>]) rest = Inr rs"
  using assms by (auto simp: try_bind_def split: sum.splits option.splits)

lemma rerank_loop_positions:
  "rerank_loop kb acc entries = Inr rs \<Longrightarrow>
     \<exists>new. rs = acc @ new \<and> length new = length entries
       \<and> map new_position new = map int [Suc (length acc) ..< Suc (length acc + length entries)]
       \<and> (\<forall>j<length entries. \<forall>i. py_get (entries ! j) ''index'' (PInt 0) = Inr (PInt i)
              \<longrightarrow> original_position (new ! j) = i + 1)"
proof (induction entries arbitrary: acc rs)
  case Nil
  then show ?case by simp
next
  case (Cons entry rest)
  from Cons.prems obtain idx i score t where
    idx: "py_get entry ''index'' (PInt 0) = Inr idx" and i: "as_index idx = Some i"
    and rec: "rerank_loop kb
       (acc @ [\<lparr> original_position = i + 1, new_position = int (length acc) + 1,
                  relevance_score = score, passage_text = t \<rparr>]) rest = Inr rs"
    by (rule rerank_loop_step)
  let ?p = "\<lparr> original_position = i + 1, new_position = int (length acc) + 1,
                  relevance_score = score, passage_text = t \<rparr>"
  from Cons.IH [OF rec] obtain new where
    rs: "rs = (acc @ [?p]) @ new" and len: "length new = length rest"
    and pos: "map new_position new =
                map int [Suc (length (acc @ [?p])) ..< Suc (length (acc @ [?p]) + length rest)]"
    and orig: "\<forall>j<length rest. \<forall>i. py_get (rest ! j) ''index'' (PInt 0) = Inr (PInt i)
              \<longrightarrow> original_position (new ! j) = i + 1"
    by blast
  have upt: "[Suc (length acc) ..< Suc (length acc + length (entry # rest))]
               = Suc (length acc) # [Suc (Suc (length acc)) ..< Suc (Suc (length acc) + length rest)]"
  proof -
    have less: "Suc (length acc) < Suc (Suc (length acc) + length rest)" by simp
    have shift: "length acc + length (entry # rest) = Suc (length acc) + length rest" by simp
    show ?thesis unfolding shift by (rule upt_conv_Cons [OF less])
  qed
  have "rs = acc @ (?p # new)" using rs by simp
  moreover have "length (?p # new) = length (entry # rest)" using len by simp
  moreover have "map new_position (?p # new)
                   = map int [Suc (length acc) ..< Suc (length acc + length (entry # rest))]"
    using pos by (simp only: upt) simp
  moreover have "\<forall>j<length (entry # rest). \<forall>i'.
        py_get ((entry # rest) ! j) ''index'' (PInt 0) = Inr (PInt i')
          \<longrightarrow> original_position ((?p # new) ! j) = i' + 1"
  proof (intro allI impI)
    fix j i'
    assume j: "j < length (entry # rest)"
      and g: "py_get ((entry # rest) ! j) ''index'' (PInt 0) = Inr (PInt i')"
    show "original_position ((?p # new) ! j) = i' + 1"
    proof (cases j)
      case 0
      with g idx i show ?thesis by simp
    next
      case (Suc j')
      with j g orig show ?thesis by simp
    qed
  qed
  ultimately show ?case by blast
qed

lemma rerank_loop_append:
  "rerank_loop kb acc (xs @ ys) = try_bind (rerank_loop kb acc xs) (\<lambda>acc'. rerank_loop kb acc' ys)"
proof (induction xs arbitrary: acc)
  case Nil
  show ?case by (simp add: try_bind_simps)
next
  case (Cons x xs)
  show ?case
    by (simp add: Cons.IH try_bind_def split: sum.splits option.splits)
qed




text \<open>
  Claim C10, as amended. Let an entry of the backend's response be given.
  If it lacks the \<open>index\<close> field, the index is silently taken to be 0: when the
  loop reaches the entry (the entries before it were processed without error) and the
  passage list is not empty, the loop appends an entry with \<open>original_position\<close> 1
  and the text of the first input passage and goes on, with no error signalled; on an
  empty passage list index 0 is out of range and \<open>rerank_results\<close> raises
  (\<open>IndexError\<close> when the entry is reached).
  If its integer index \<open>i\<close> has \<open>i \<ge> len(kb_results)\<close> or
  \<open>i < -len(kb_results)\<close>, \<open>rerank_results\<close> raises an exception that nothing
  catches (\<open>IndexError\<close> when the entry is reached, otherwise what an earlier entry
  raised).
  If its index is negative but within Python's range, from \<open>-len(kb_results)\<close> to
  \<open>-1\<close>, the entry, when reached, raises nothing: the loop appends the passage
  counted from the end, with \<open>original_position = i + 1\<close>, and goes on.
\<close>

theorem rerank_results_index_handling:
  assumes "boto3_client = Inr client_rerank"
    and "client_rerank (rerank_args query kb_results rerank_model_arn reranked_result_count)
           = Inr reranked"
    and "rerank_entries reranked = Inr (before @ PDict d # rest)"
  shows "(\<forall>acc. rerank_loop kb_results [] before = Inr acc
               \<and> map_of d ''index'' = None \<and> kb_results \<noteq> [] \<longrightarrow>
            rerank_results boto3_client query kb_results rerank_model_arn reranked_result_count
              = try_bind
                  (rerank_loop kb_results
                     (acc @ [\<lparr> original_position = 1,
                               new_position = int (length acc) + 1,
                               relevance_score =
                                 (case map_of d ''relevanceScore'' of Some v \<Rightarrow> v | None \<Rightarrow> PInt 0),
                               passage_text = hd kb_results \<rparr>])
                     rest)
                  (\<lambda>rs. Inr \<lparr> original_results = kb_results, reranked_results = rs \<rparr>))
    \<and> (map_of d ''index'' = None \<and> kb_results = [] \<longrightarrow>
            (\<exists>e. rerank_results boto3_client query kb_results rerank_model_arn reranked_result_count
                    = Inl e))
    \<and> (\<forall>acc. rerank_loop kb_results [] before = Inr acc
               \<and> map_of d ''index'' = None \<and> kb_results = [] \<longrightarrow>
            rerank_results boto3_client query kb_results rerank_model_arn reranked_result_count
              = Inl IndexError)
    \<and> (\<forall>i. map_of d ''index'' = Some (PInt i)
               \<and> (int (length kb_results) \<le> i \<or> i < - int (length kb_results)) \<longrightarrow>
            (\<exists>e. rerank_results boto3_client query kb_results rerank_model_arn reranked_result_count
                    = Inl e))
    \<and> (\<forall>acc i. rerank_loop kb_results [] before = Inr acc
               \<and> map_of d ''index'' = Some (PInt i)
               \<and> (int (length kb_results) \<le> i \<or> i < - int (length kb_results)) \<longrightarrow>
            rerank_results boto3_client query kb_results rerank_model_arn reranked_result_count
              = Inl IndexError)
    \<and> (\<forall>acc i. rerank_loop kb_results [] before = Inr acc
               \<and> map_of d ''index'' = Some (PInt i)
               \<and> - int (length kb_results) \<le> i \<and> i < 0 \<longrightarrow>
            rerank_results boto3_client query kb_results rerank_model_arn reranked_result_count
              = try_bind
                  (rerank_loop kb_results
                     (acc @ [\<lparr> original_position = i + 1,
                               new_position = int (length acc) + 1,
                               relevance_score =
                                 (case map_of d ''relevanceScore'' of Some v \<Rightarrow> v | None \<Rightarrow> PInt 0),
                               passage_text = kb_results ! nat (i + int (length kb_results)) \<rparr>])
                     rest)
                  (\<lambda>rs. Inr \<lparr> original_results = kb_results, reranked_results = rs \<rparr>))"
proof -
  let ?run = "rerank_results boto3_client query kb_results rerank_model_arn reranked_result_count"
  let ?wrap = "\<lambda>rs. Inr \<lparr> original_results = kb_results, reranked_results = rs \<rparr> :: exn + rerank_output"
  have whole: "?run = try_bind (try_bind (rerank_loop kb_results [] before)
                          (\<lambda>acc. rerank_loop kb_results acc (PDict d # rest))) ?wrap"
    using assms by (simp add: rerank_results_def rerank_loop_append try_bind_simps)
  have reach: "?run = try_bind (rerank_loop kb_results acc (PDict d # rest)) ?wrap"
    if "rerank_loop kb_results [] before = Inr acc" for acc
    using that by (simp add: whole try_bind_simps)
  have raises: "\<exists>e. ?run = Inl e"
    if "\<And>acc. rerank_loop kb_results acc (PDict d # rest) = Inl IndexError"
    using that by (cases "rerank_loop kb_results [] before") (simp_all add: whole try_bind_simps)
  have absent: "\<forall>acc. rerank_loop kb_results [] before = Inr acc
               \<and> map_of d ''index'' = None \<and> kb_results \<noteq> [] \<longrightarrow>
            ?run = try_bind
                  (rerank_loop kb_results
                     (acc @ [\<lparr> original_position = 1,
                               new_position = int (length acc) + 1,
                               relevance_score =
                                 (case map_of d ''relevanceScore'' of Some v \<Rightarrow> v | None \<Rightarrow> PInt 0),
                               passage_text = hd kb_results \<rparr>])
                     rest) ?wrap"
    by (auto simp: reach try_bind_simps py_index_def hd_conv_nth)
  have empty_raises: "map_of d ''index'' = None \<and> kb_results = [] \<longrightarrow> (\<exists>e. ?run = Inl e)"
  proof (intro impI)
    assume "map_of d ''index'' = None \<and> kb_results = []"
    then have "\<And>acc. rerank_loop kb_results acc (PDict d # rest) = Inl IndexError"
      by (simp add: try_bind_simps py_index_def)
    then show "\<exists>e. ?run = Inl e" by (rule raises)
  qed
  have empty_reached: "\<forall>acc. rerank_loop kb_results [] before = Inr acc
               \<and> map_of d ''index'' = None \<and> kb_results = [] \<longrightarrow> ?run = Inl IndexError"
  proof (intro allI impI)
    fix acc
    assume h: "rerank_loop kb_results [] before = Inr acc
               \<and> map_of d ''index'' = None \<and> kb_results = []"
    then have reached: "rerank_loop kb_results [] before = Inr acc" by blast
    from h have step: "rerank_loop kb_results acc (PDict d # rest) = Inl IndexError"
      by (simp add: try_bind_simps py_index_def)
    have "?run = try_bind (rerank_loop kb_results acc (PDict d # rest)) ?wrap"
      by (rule reach [OF reached])
    also have "\<dots> = Inl IndexError"
      by (simp only: step try_bind_simps)
    finally show "?run = Inl IndexError" .
  qed
  have outside_raises: "\<forall>i. map_of d ''index'' = Some (PInt i)
               \<and> (int (length kb_results) \<le> i \<or> i < - int (length kb_results)) \<longrightarrow>
            (\<exists>e. ?run = Inl e)"
    by (auto intro!: raises simp: try_bind_simps py_index_def)
  have outside_reached: "\<forall>acc i. rerank_loop kb_results [] before = Inr acc
               \<and> map_of d ''index'' = Some (PInt i)
               \<and> (int (length kb_results) \<le> i \<or> i < - int (length kb_results)) \<longrightarrow>
            ?run = Inl IndexError"
    by (auto simp: reach try_bind_simps py_index_def)
  have negative: "\<forall>acc i. rerank_loop kb_results [] before = Inr acc
               \<and> map_of d ''index'' = Some (PInt i)
               \<and> - int (length kb_results) \<le> i \<and> i < 0 \<longrightarrow>
            ?run = try_bind
                  (rerank_loop kb_results
                     (acc @ [\<lparr> original_position = i + 1,
                               new_position = int (length acc) + 1,
                               relevance_score =
                                 (case map_of d ''relevanceScore'' of Some v \<Rightarrow> v | None \<Rightarrow> PInt 0),
                               passage_text = kb_results ! nat (i + int (length kb_results)) \<rparr>])
                     rest) ?wrap"
    by (auto simp: reach try_bind_simps py_index_def)
  from absent empty_raises empty_reached outside_raises outside_reached negative
  show ?thesis by blast
qed

theorem rerank_results_index_handling_witness:
  "rerank_results
     (Inr (\<lambda>r. Inr (PDict [(''results'', PList [PDict [(''index'', PInt 1)], PDict [(''relevanceScore'', PInt 1)]])])))
     ''q'' [''a'', ''b''] ''arn'' 5
     = Inr \<lparr> original_results = [''a'', ''b''],
             reranked_results =
               [\<lparr> original_position = 2, new_position = 1, relevance_score = PInt 0,
                   passage_text = ''b'' \<rparr>,
                \<lparr> original_position = 1, new_position = 2, relevance_score = PInt 1,
                   passage_text = ''a'' \<rparr>] \<rparr>
   \<and> rerank_results
     (Inr (\<lambda>r. Inr (PDict [(''results'', PList [PDict [(''index'', PInt 1)], PDict [(''index'', PInt 2)]])])))
     ''q'' [''a'', ''b''] ''arn'' 5
     = Inl IndexError
   \<and> rerank_results
     (Inr (\<lambda>r. Inr (PDict [(''results'', PList [PDict [(''index'', PInt 1)], PDict [(''index'', PInt (- 2))]])])))
     ''q'' [''a'', ''b''] ''arn'' 5
     = Inr \<lparr> original_results = [''a'', ''b''],
             reranked_results =
               [\<lparr> original_position = 2, new_position = 1, relevance_score = PInt 0,
                   passage_text = ''b'' \<rparr>,
                \<lparr> original_position = - 1, new_position = 2, relevance_score = PInt 0,
                   passage_text = ''a'' \<rparr>] \<rparr>
   \<and> rerank_results
     (Inr (\<lambda>r. Inr (PDict [(''results'', PList [PDict [(''relevanceScore'', PInt 1)]])])))
     ''q'' [] ''arn'' 5
     = Inl IndexError"
proof -
  let ?kb = "[''a'', ''b'']"
  let ?first = "PDict [(''index'', PInt 1)]"
  let ?acc = "[\<lparr> original_position = 2, new_position = 1, relevance_score = PInt 0,
                   passage_text = ''b'' \<rparr>]"
  have before: "rerank_loop ?kb [] [?first] = Inr ?acc"
    by (simp add: try_bind_simps py_index_def)
  let ?r1 = "PDict [(''results'', PList [?first, PDict [(''relevanceScore'', PInt 1)]])]"
  let ?r2 = "PDict [(''results'', PList [?first, PDict [(''index'', PInt 2)]])]"
  let ?r3 = "PDict [(''results'', PList [?first, PDict [(''index'', PInt (- 2))]])]"
  let ?b1 = "\<lambda>r :: rerank_request. Inr ?r1 :: exn + pyval"
  let ?b2 = "\<lambda>r :: rerank_request. Inr ?r2 :: exn + pyval"
  let ?b3 = "\<lambda>r :: rerank_request. Inr ?r3 :: exn + pyval"
  have c1: "?b1 (rerank_args ''q'' ?kb ''arn'' 5) = Inr ?r1" by simp
  have c2: "?b2 (rerank_args ''q'' ?kb ''arn'' 5) = Inr ?r2" by simp
  have c3: "?b3 (rerank_args ''q'' ?kb ''arn'' 5) = Inr ?r3" by simp
  have e1: "rerank_entries ?r1 = Inr ([?first] @ PDict [(''relevanceScore'', PInt 1)] # [])"
    by (simp add: rerank_entries_def try_bind_simps)
  have e2: "rerank_entries ?r2 = Inr ([?first] @ PDict [(''index'', PInt 2)] # [])"
    by (simp add: rerank_entries_def try_bind_simps)
  have e3: "rerank_entries ?r3 = Inr ([?first] @ PDict [(''index'', PInt (- 2))] # [])"
    by (simp add: rerank_entries_def try_bind_simps)
  have h1: "map_of [(''relevanceScore'', PInt 1)] ''index'' = None \<and> ?kb \<noteq> []" by simp
  have h2: "map_of [(''index'', PInt 2)] ''index'' = Some (PInt 2)
              \<and> (int (length ?kb) \<le> 2 \<or> 2 < - int (length ?kb))" by simp
  have h3: "map_of [(''index'', PInt (- 2))] ''index'' = Some (PInt (- 2))
              \<and> - int (length ?kb) \<le> - 2 \<and> (- 2 :: int) < 0" by simp
  from rerank_results_index_handling [where client_rerank = ?b1, OF refl c1 e1] before h1
  have "rerank_results (Inr ?b1) ''q'' ?kb ''arn'' 5
          = try_bind
              (rerank_loop ?kb
                 (?acc @ [\<lparr> original_position = 1, new_position = int (length ?acc) + 1,
                            relevance_score =
                              (case map_of [(''relevanceScore'', PInt 1)] ''relevanceScore'' of
                                 Some v \<Rightarrow> v | None \<Rightarrow> PInt 0),
                            passage_text = hd ?kb \<rparr>]) [])
              (\<lambda>rs. Inr \<lparr> original_results = ?kb, reranked_results = rs \<rparr>)"
    by blast
  then have first: "rerank_results (Inr ?b1) ''q'' ?kb ''arn'' 5
     = Inr \<lparr> original_results = ?kb,
             reranked_results =
               [\<lparr> original_position = 2, new_position = 1, relevance_score = PInt 0,
                   passage_text = ''b'' \<rparr>,
                \<lparr> original_position = 1, new_position = 2, relevance_score = PInt 1,
                   passage_text = ''a'' \<rparr>] \<rparr>"
    by (simp add: try_bind_simps)
  from rerank_results_index_handling [where client_rerank = ?b2, OF refl c2 e2] before h2
  have second: "rerank_results (Inr ?b2) ''q'' ?kb ''arn'' 5 = Inl IndexError"
    by blast
  from rerank_results_index_handling [where client_rerank = ?b3, OF refl c3 e3] before h3
  have "rerank_results (Inr ?b3) ''q'' ?kb ''arn'' 5
          = try_bind
              (rerank_loop ?kb
                 (?acc @ [\<lparr> original_position = - 2 + 1, new_position = int (length ?acc) + 1,
                            relevance_score =
                              (case map_of [(''index'', PInt (- 2))] ''relevanceScore'' of
                                 Some v \<Rightarrow> v | None \<Rightarrow> PInt 0),
                            passage_text = ?kb ! nat (- 2 + int (length ?kb)) \<rparr>]) [])
              (\<lambda>rs. Inr \<lparr> original_results = ?kb, reranked_results = rs \<rparr>)"
    by blast
  then have third: "rerank_results (Inr ?b3) ''q'' ?kb ''arn'' 5
     = Inr \<lparr> original_results = ?kb,
             reranked_results =
               [\<lparr> original_position = 2, new_position = 1, relevance_score = PInt 0,
                   passage_text = ''b'' \<rparr>,
                \<lparr> original_position = - 1, new_position = 2, relevance_score = PInt 0,
                   passage_text = ''a'' \<rparr>] \<rparr>"
    by (simp add: try_bind_simps)
  let ?r4 = "PDict [(''results'', PList [PDict [(''relevanceScore'', PInt 1)]])]"
  let ?b4 = "\<lambda>r :: rerank_request. Inr ?r4 :: exn + pyval"
  have c4: "?b4 (rerank_args ''q'' [] ''arn'' 5) = Inr ?r4" by simp
  have e4: "rerank_entries ?r4 = Inr ([] @ PDict [(''relevanceScore'', PInt 1)] # [])"
    by (simp add: rerank_entries_def try_bind_simps)
  have none_before: "rerank_loop ([] :: string list) [] [] = Inr []" by simp
  have h4: "map_of [(''relevanceScore'', PInt 1)] ''index'' = None \<and> ([] :: string list) = []"
    by simp
  from rerank_results_index_handling [where client_rerank = ?b4, OF refl c4 e4] none_before h4
  have fourth: "rerank_results (Inr ?b4) ''q'' [] ''arn'' 5 = Inl IndexError"
    by blast
  show ?thesis
    by (intro conjI) (fact first, fact second, fact third, fact fourth)
qed

text \<open>
  The claim as stated fails twice. The index \<open>-1\<close> is outside the positions
  0 and 1 of a list of two passages, and no exception is raised: the entry gets the last
  passage and \<open>original_position\<close> 0. And an entry without \<open>index\<close> on an
  empty passage list raises \<open>IndexError\<close> instead of being defaulted silently.
\<close>

theorem rerank_results_index_counterexample:
  "rerank_results
     (Inr (\<lambda>r. Inr (PDict [(''results'', PList [PDict [(''index'', PInt (- 1)), (''relevanceScore'', PInt 1)]])])))
     ''q'' [''a'', ''b''] ''arn'' 5
     = Inr \<lparr> original_results = [''a'', ''b''],
             reranked_results =
               [\<lparr> original_position = 0, new_position = 1, relevance_score = PInt 1,
                   passage_text = ''b'' \<rparr>] \<rparr>
   \<and> \<not> (0 \<le> (- 1 :: int) \<and> (- 1 :: int) < int (length [''a'', ''b'']))
   \<and> rerank_results
     (Inr (\<lambda>r. Inr (PDict [(''results'', PList [PDict [(''relevanceScore'', PInt 1)]])])))
     ''q'' [] ''arn'' 5
     = Inl IndexError"
  by (simp add: rerank_results_def rerank_entries_def try_bind_simps py_index_def)

section \<open>Properties of the context retriever\<close>

lemma join_spans:
  "list_all well_formed_span items \<Longrightarrow>
     py_join_empty (map (span_item I) items) = Inr (concat (map span_string items))"
proof (induction items)
  case Nil
  show ?case by simp
next
  case (Cons item items)
  then have rest: "py_join_empty (map (span_item I) items) = Inr (concat (map span_string items))"
    by simp
  from Cons.prems have "well_formed_span item" by simp
  then show ?case
  proof (cases item)
    case (PStr s)
    with rest show ?thesis by simp
  next
    case (PDict d)
    with \<open>well_formed_span item\<close> rest show ?thesis
      by (auto split: option.splits pyval.splits)
  qed simp_all
qed

lemma join_characters:
  "py_join_empty (map (span_item I \<circ> (\<lambda>c. PStr [c])) s) = Inr s"
  by (induction s) simp_all

lemma search_kb_text_well_formed:
  assumes "well_formed_result result"
  shows "search_kb_text I result = Inr (normalized_text result)"
proof (cases result)
  case (PDict r)
  show ?thesis
  proof (cases "map_of r ''content''")
    case None
    with PDict show ?thesis
      by (simp add: search_kb_text_def normalized_text_def try_bind_simps)
  next
    case (Some content)
    with assms PDict obtain c where c: "content = PDict c"
      by (cases content) simp_all
    show ?thesis
    proof (cases "map_of c ''text''")
      case None
      with PDict Some c show ?thesis
        by (simp add: search_kb_text_def normalized_text_def try_bind_simps)
    next
      case present: (Some t)
      with assms PDict Some c
      have "(\<exists>s. t = PStr s) \<or> (\<exists>items. t = PList items \<and> list_all well_formed_span items)"
        by (cases t) simp_all
      then show ?thesis
      proof
        assume "\<exists>s. t = PStr s"
        then obtain s where "t = PStr s" by blast
        with PDict Some c present show ?thesis
          by (simp add: search_kb_text_def normalized_text_def try_bind_simps join_characters)
      next
        assume "\<exists>items. t = PList items \<and> list_all well_formed_span items"
        then obtain items where "t = PList items" and "list_all well_formed_span items"
          by blast
        with PDict Some c present show ?thesis
          by (simp add: search_kb_text_def normalized_text_def try_bind_simps join_spans)
      qed
    qed
  qed
qed (insert assms, simp_all)

lemma search_kb_loop_well_formed:
  "list_all well_formed_result rs \<Longrightarrow>
     search_kb_loop I i documents originals rs = Inr (documents @ map normalized_text rs)"
proof (induction rs arbitrary: i documents originals)
  case Nil
  show ?case by simp
next
  case (Cons r rs)
  from Cons.prems have wf: "well_formed_result r" and rest: "list_all well_formed_result rs"
    by simp_all
  from wf obtain d where "r = PDict d" by (cases r) simp_all
  then have score: "\<exists>score. py_get r ''scoreValue'' (PInt 0) = Inr score" by simp
  then obtain score where "py_get r ''scoreValue'' (PInt 0) = Inr score" by blast
  with search_kb_text_well_formed [OF wf, of I] Cons.IH [OF rest]
  show ?case by (simp add: try_bind_simps)
qed

text \<open>
  Claim C9. For every response whose results are well formed, \<open>search_kb\<close> returns
  one text per result, in order: where the textual content of a result is a list of
  sub-spans (span objects or raw strings) the text is the in-order concatenation of the
  spans, and where the result has no textual content the text is the empty string; no
  error is raised.
\<close>

theorem search_kb_normalizes_text:
  assumes "client_retrieve (search_kb_args query kb_id numberOfResults) = Inr (PDict response)"
    and "map_of response ''retrievalResults'' = Some (PList results)"
    and "list_all well_formed_result results"
  shows "search_kb I (Inr client_retrieve) query kb_id numberOfResults = Inr (map normalized_text results)
    \<and> (\<forall>result \<in> set results. \<forall>items.
          result_content_text result = Some (PList items) \<longrightarrow>
            normalized_text result = concat (map span_string items))
    \<and> (\<forall>result \<in> set results.
          result_content_text result = None \<longrightarrow> normalized_text result = [])"
  using assms search_kb_loop_well_formed [OF assms(3), of I 0 "[]" "[]"]
  by (simp add: search_kb_def try_bind_simps normalized_text_def)

theorem search_kb_normalizes_text_witness:
  "search_kb example_interp
     (Inr (\<lambda>r. Inr (PDict [(''retrievalResults'',
          PList [PDict [(''content'', PDict [(''text'',
                     PList [PDict [(''span'', PStr ''Red '')], PStr ''teaming'', PDict [(''span'', PStr ''.'')]])]),
                        (''scoreValue'', PFloat 0x3FE0000000000000)],
                 PDict [(''scoreValue'', PFloat 0x3FD0000000000000)],
                 PDict [(''content'', PDict [(''type'', PStr ''TEXT'')])]])])))
     ''What is red teaming?'' ''kb'' 5
   = Inr [''Red teaming.'', [], []]"
proof -
  let ?r1 = "PDict [(''content'', PDict [(''text'',
                     PList [PDict [(''span'', PStr ''Red '')], PStr ''teaming'', PDict [(''span'', PStr ''.'')]])]),
                        (''scoreValue'', PFloat 0x3FE0000000000000)]"
  let ?r2 = "PDict [(''scoreValue'', PFloat 0x3FD0000000000000)]"
  let ?r3 = "PDict [(''content'', PDict [(''type'', PStr ''TEXT'')])]"
  let ?resp = "[(''retrievalResults'', PList [?r1, ?r2, ?r3])]"
  let ?backend = "\<lambda>r :: retrieve_request. Inr (PDict ?resp) :: exn + pyval"
  have call: "?backend (search_kb_args ''What is red teaming?'' ''kb'' 5) = Inr (PDict ?resp)"
    by simp
  have results: "map_of ?resp ''retrievalResults'' = Some (PList [?r1, ?r2, ?r3])"
    by simp
  have wf: "list_all well_formed_result [?r1, ?r2, ?r3]"
    by simp
  from search_kb_normalizes_text
         [where client_retrieve = ?backend and I = example_interp, OF call results wf]
  have "search_kb example_interp (Inr ?backend) ''What is red teaming?'' ''kb'' 5
          = Inr (map normalized_text [?r1, ?r2, ?r3])"
    by blast
  then show ?thesis by (simp add: normalized_text_def)
qed


section \<open>Properties of prompt assembly\<close>

lemma kb_context_loop_concat:
  "kb_context_loop kb_context rs
     = kb_context @ concat (map (\<lambda>r. passage_text r @ ''\<newline>\<newline>'') rs)"
  by (induction rs arbitrary: kb_context) simp_all

lemma concat_terminated_join:
  "xs \<noteq> [] \<Longrightarrow> concat (map (\<lambda>x. x @ sep) xs) = str_join sep xs @ sep"
  by (induction sep xs rule: str_join.induct) simp_all

lemma all_strings_of_strings: "all_strings (map PStr texts) = Inr texts"
  by (induction texts) simp_all

text \<open>
  Claim C7, as amended. In the reranking notebook the context string after reranking is
  the text of each reranked passage followed by a double newline, in the order of the
  list, which is the order of \<open>new_position\<close>: for a non-empty list this is the
  double-newline join of the texts plus one trailing double newline, for an empty list
  the empty string. Without reranking the context string is exactly the double-newline
  join. \<open>format_prompt\<close> of the SageMaker notebook fills its context slot with the
  passages joined by a single space.
\<close>

theorem kb_context_assembly:
  "kb_context_reranked out
     = concat (map (\<lambda>r. passage_text r @ ''\<newline>\<newline>'') (reranked_results out))
   \<and> (reranked_results out \<noteq> [] \<longrightarrow>
         kb_context_reranked out
           = str_join ''\<newline>\<newline>'' (map passage_text (reranked_results out)) @ ''\<newline>\<newline>'')
   \<and> (reranked_results out = [] \<longrightarrow> kb_context_reranked out = [])
   \<and> (rerank_results boto3_client query kb_results rerank_model_arn reranked_result_count = Inr out \<longrightarrow>
         map new_position (reranked_results out) = map int [1 ..< length (reranked_results out) + 1])
   \<and> kb_context_original kb_results = str_join ''\<newline>\<newline>'' kb_results
   \<and> format_context_slot (map PStr texts) = Inr (str_join '' '' texts)"
proof (intro conjI impI)
  show flat: "kb_context_reranked out
     = concat (map (\<lambda>r. passage_text r @ ''\<newline>\<newline>'') (reranked_results out))"
    by (simp add: kb_context_reranked_def kb_context_loop_concat)
  {
    assume "reranked_results out \<noteq> []"
    then have "concat (map (\<lambda>x. x @ ''\<newline>\<newline>'') (map passage_text (reranked_results out)))
                 = str_join ''\<newline>\<newline>'' (map passage_text (reranked_results out)) @ ''\<newline>\<newline>''"
      by (intro concat_terminated_join) simp
    with flat show "kb_context_reranked out
           = str_join ''\<newline>\<newline>'' (map passage_text (reranked_results out)) @ ''\<newline>\<newline>''"
      by (simp add: comp_def)
  }
  {
    assume "reranked_results out = []"
    with flat show "kb_context_reranked out = []" by simp
  }
  {
    assume "rerank_results boto3_client query kb_results rerank_model_arn reranked_result_count = Inr out"
    then obtain entries where "rerank_loop kb_results [] entries = Inr (reranked_results out)"
      by (auto simp: rerank_results_def try_bind_def split: sum.splits)
    from rerank_loop_positions [OF this]
    show "map new_position (reranked_results out) = map int [1 ..< length (reranked_results out) + 1]"
      by auto
  }
  show "kb_context_original kb_results = str_join ''\<newline>\<newline>'' kb_results"
    by (simp add: kb_context_original_def)
  show "format_context_slot (map PStr texts) = Inr (str_join '' '' texts)"
    by (simp add: format_context_slot_def all_strings_of_strings try_bind_simps)
qed

text \<open>
  The claim as stated fails in its own scenario: with 20 passages reranked to 5, the
  context string holds the 5 texts in \<open>new_position\<close> order but is not their
  double-newline join (it ends with a separator); and \<open>format_prompt\<close> joins with
  a space.
\<close>

theorem kb_context_join_counterexample:
  "\<exists>out.
     rerank_results
       (Inr (\<lambda>r. Inr (PDict [(''results'',
                 PList [PDict [(''index'', PInt 7), (''relevanceScore'', PInt 5)],
                        PDict [(''index'', PInt 0), (''relevanceScore'', PInt 4)],
                        PDict [(''index'', PInt 19), (''relevanceScore'', PInt 3)],
                        PDict [(''index'', PInt 3), (''relevanceScore'', PInt 2)],
                        PDict [(''index'', PInt 12), (''relevanceScore'', PInt 1)]])])))
       ''q''
       [''p00'', ''p01'', ''p02'', ''p03'', ''p04'', ''p05'', ''p06'', ''p07'', ''p08'', ''p09'',
        ''p10'', ''p11'', ''p12'', ''p13'', ''p14'', ''p15'', ''p16'', ''p17'', ''p18'', ''p19'']
       ''arn'' 5 = Inr out
     \<and> map passage_text (reranked_results out) = [''p07'', ''p00'', ''p19'', ''p03'', ''p12'']
     \<and> kb_context_reranked out
           = ''p07\<newline>\<newline>p00\<newline>\<newline>p19\<newline>\<newline>p03\<newline>\<newline>p12\<newline>\<newline>''
     \<and> kb_context_reranked out
           \<noteq> str_join ''\<newline>\<newline>'' [''p07'', ''p00'', ''p19'', ''p03'', ''p12'']
     \<and> format_context_slot [PStr ''p07'', PStr ''p00'']
           = Inr ''p07 p00''
     \<and> format_context_slot [PStr ''p07'', PStr ''p00'']
           \<noteq> Inr (str_join ''\<newline>\<newline>'' [''p07'', ''p00''])
     \<and> format_prompt ''q'' [PStr ''p07'', PStr ''p00'']
           = Inr (''<|begin_of_text|>\<newline>'' @
                  ''        <|start_header_id|>system<|end_header_id|>\<newline>'' @
                  ''        Use the following context to answer the question. If you don't know the answer, say 'I don't know'.\<newline>'' @
                  ''        Context:\<newline>'' @
                  ''        p07 p00'' @ [CHR 0x22] @ ''\<newline>'' @
                  ''    \<newline>'' @
                  ''        <|start_header_id|>user<|end_header_id|>\<newline>'' @
                  ''        Question: q\<newline>'' @
                  ''        <|start_header_id|>assistant<|end_header_id|>'')"
  by (simp add: rerank_results_def rerank_entries_def try_bind_simps py_index_def
        kb_context_reranked_def format_context_slot_def format_prompt_def)

theorem kb_context_assembly_witness:
  "(\<exists>out. rerank_results
       (Inr (\<lambda>r. Inr (PDict [(''results'',
                 PList [PDict [(''index'', PInt 2), (''relevanceScore'', PInt 2)],
                        PDict [(''index'', PInt 0), (''relevanceScore'', PInt 1)]])])))
       ''q'' [''a'', ''b'', ''c''] ''arn'' 2 = Inr out
     \<and> map new_position (reranked_results out) = [1, 2]
     \<and> kb_context_reranked out = ''c\<newline>\<newline>a\<newline>\<newline>'')
   \<and> kb_context_reranked \<lparr> original_results = [''a''], reranked_results = [] \<rparr> = []"
proof -
  let ?backend = "\<lambda>r :: rerank_request. Inr (PDict [(''results'',
                 PList [PDict [(''index'', PInt 2), (''relevanceScore'', PInt 2)],
                        PDict [(''index'', PInt 0), (''relevanceScore'', PInt 1)]])]) :: exn + pyval"
  let ?out = "\<lparr> original_results = [''a'', ''b'', ''c''],
       reranked_results =
         [\<lparr> original_position = 3, new_position = 1, relevance_score = PInt 2, passage_text = ''c'' \<rparr>,
          \<lparr> original_position = 1, new_position = 2, relevance_score = PInt 1, passage_text = ''a'' \<rparr>] \<rparr>"
  let ?none = "\<lparr> original_results = [''a''], reranked_results = [] :: reranked_passage list \<rparr>"
  have run: "rerank_results (Inr ?backend) ''q'' [''a'', ''b'', ''c''] ''arn'' 2 = Inr ?out"
    by (simp add: rerank_results_def rerank_entries_def try_bind_simps py_index_def)
  have some: "reranked_results ?out \<noteq> []" by simp
  have empty: "reranked_results ?none = []" by simp
  note facts = kb_context_assembly
                 [where out = ?out and boto3_client = "Inr ?backend" and query = "''q''"
                    and kb_results = "[''a'', ''b'', ''c'']" and rerank_model_arn = "''arn''"
                    and reranked_result_count = 2]
  from facts some
  have "kb_context_reranked ?out
          = str_join ''\<newline>\<newline>'' (map passage_text (reranked_results ?out)) @ ''\<newline>\<newline>''"
    by blast
  then have joined: "kb_context_reranked ?out = ''c\<newline>\<newline>a\<newline>\<newline>''"
    by simp
  from facts run
  have "map new_position (reranked_results ?out)
          = map int [1 ..< length (reranked_results ?out) + 1]"
    by blast
  then have order: "map new_position (reranked_results ?out) = [1, 2]"
    by (simp add: upt_rec)
  from kb_context_assembly [where out = ?none] empty
  have second: "kb_context_reranked ?none = []"
    by blast
  show ?thesis
    by (intro conjI exI [of _ ?out]) (fact run, fact order, fact joined, fact second)
qed

end
